theory Spec2Isabelle
  imports Complex_Main
begin

section \<open>Python strings\<close>

text \<open>
  A Python \<open>str\<close> is modelled as a \<open>string\<close> whose characters are the code points
  0 to 255.  On this range \<open>str.isspace\<close>, \<open>str.lower\<close> and the regular
  expression class \<open>\d\<close> are the finite tables below; strings with code points
  above 255 are outside the model.
\<close>

definition isdigit :: "char \<Rightarrow> bool" where
  "isdigit c = (48 \<le> (of_char c :: nat) \<and> (of_char c :: nat) \<le> 57)"

definition isspace :: "char \<Rightarrow> bool" where
  "isspace c = (let n = (of_char c :: nat) in
     (9 \<le> n \<and> n \<le> 13) \<or> (28 \<le> n \<and> n \<le> 32) \<or> n = 133 \<or> n = 160)"

text \<open>\<open>s.strip()\<close>: leading and trailing white space removed.\<close>

definition strip :: "string \<Rightarrow> string" where
  "strip s = rev (dropWhile isspace (rev (dropWhile isspace s)))"

definition lower_char :: "char \<Rightarrow> char" where
  "lower_char c = (let n = (of_char c :: nat) in
     if (65 \<le> n \<and> n \<le> 90) \<or> (192 \<le> n \<and> n \<le> 222 \<and> n \<noteq> 215)
     then char_of (n + 32) else c)"

text \<open>\<open>s.lower()\<close>.\<close>

definition lower :: "string \<Rightarrow> string" where
  "lower s = map lower_char s"




text \<open>\<open>sep.join(xs)\<close>.\<close>

fun join :: "string \<Rightarrow> string list \<Rightarrow> string" where
  "join sep [] = []"
| "join sep [x] = x"
| "join sep (x # y # ys) = x @ sep @ join sep (y # ys)"

text \<open>
  Truth value of an optional string, as \<open>if phone\<close> or
  \<open>getattr(input, "phone", None)\<close> test it: \<open>None\<close> and the empty string are false.
\<close>

definition truthy :: "string option \<Rightarrow> bool" where
  "truthy v = (case v of None \<Rightarrow> False | Some s \<Rightarrow> s \<noteq> [])"

section \<open>The regular expressions of the phone validator\<close>

text \<open>
  The two patterns use four constructs only: \<open>^\<close>, \<open>$\<close>, a literal character and
  \<open>\d{m,n}\<close> (with \<open>\d{m}\<close> as \<open>\d{m,m}\<close>).  A matcher state is the number of
  characters consumed and the rest of the subject.  Without the MULTILINE flag
  \<open>^\<close> matches at offset 0 only, and \<open>$\<close> matches at the end of the subject and
  also just before a line feed that is the last character of the subject.
  \<open>\d{m,n}\<close> is greedy: the longest run is tried first.
\<close>

datatype atom = Caret | Dollar | Lit char | Digits nat nat

definition line_feed :: char where
  "line_feed = char_of (10 :: nat)"

fun atom_step :: "atom \<Rightarrow> nat \<times> string \<Rightarrow> (nat \<times> string) list" where
  "atom_step Caret (k, r) = (if k = 0 then [(k, r)] else [])"
| "atom_step Dollar (k, r) = (if r = [] \<or> r = [line_feed] then [(k, r)] else [])"
| "atom_step (Lit c) (k, r) =
     (case r of [] \<Rightarrow> [] | x # r' \<Rightarrow> if x = c then [(Suc k, r')] else [])"
| "atom_step (Digits m n) (k, r) =
     (let d = length (takeWhile isdigit r)
      in map (\<lambda>j. (k + j, drop j r)) (rev [m ..< Suc (min n d)]))"

fun run :: "atom list \<Rightarrow> (nat \<times> string) list \<Rightarrow> (nat \<times> string) list" where
  "run [] sts = sts"
| "run (a # as) sts = run as (concat (map (atom_step a) sts))"

text \<open>\<open>p.match(s)\<close> as a truth value: is there a match starting at offset 0.\<close>

definition re_match :: "atom list \<Rightarrow> string \<Rightarrow> bool" where
  "re_match p s = (run p [(0, s)] \<noteq> [])"

definition plus_pattern :: "atom list" where
  "plus_pattern = [Caret, Lit (CHR ''+''), Digits 7 15, Dollar]"

definition dashed_pattern :: "atom list" where
  "dashed_pattern =
     [Caret, Digits 3 3, Lit (CHR ''-''), Digits 3 3, Lit (CHR ''-''), Digits 4 4, Dollar]"

text \<open>\<open>PHONE_PATTERNS\<close> of old-schema3.py and \<open>PHONE_REGEXES\<close> of old-schema.py.\<close>

definition PHONE_PATTERNS :: "atom list list" where
  "PHONE_PATTERNS = [plus_pattern, dashed_pattern]"

definition PHONE_REGEXES :: "atom list list" where
  "PHONE_REGEXES = [plus_pattern, dashed_pattern]"

text \<open>\<open>is_valid_phone\<close> (old-schema3.py) and \<open>validate_phone\<close> (old-schema.py).\<close>

definition is_valid_phone :: "string option \<Rightarrow> bool" where
  "is_valid_phone phone =
     (case phone of
        None \<Rightarrow> True
      | Some s \<Rightarrow> if s = [] then True else list_ex (\<lambda>p. re_match p s) PHONE_PATTERNS)"

definition validate_phone :: "string option \<Rightarrow> bool" where
  "validate_phone phone =
     (case phone of
        None \<Rightarrow> True
      | Some s \<Rightarrow> if s = [] then True else list_ex (\<lambda>rx. re_match rx s) PHONE_REGEXES)"

text \<open>
  The format as the specification words it: \<open>+\<close> followed by 7 to 15 digits, or
  three digits, hyphen, three digits, hyphen, four digits, and nothing else.
\<close>

definition spec_plus_format :: "string \<Rightarrow> bool" where
  "spec_plus_format s =
     (case s of [] \<Rightarrow> False
      | c # ds \<Rightarrow> c = CHR ''+'' \<and> 7 \<le> length ds \<and> length ds \<le> 15 \<and> list_all isdigit ds)"

definition spec_dashed_format :: "string \<Rightarrow> bool" where
  "spec_dashed_format s =
     (length s = 12 \<and> list_all isdigit (take 3 s) \<and> s ! 3 = CHR ''-'' \<and>
      list_all isdigit (take 3 (drop 4 s)) \<and> s ! 7 = CHR ''-'' \<and>
      list_all isdigit (drop 8 s))"

definition spec_phone_format :: "string \<Rightarrow> bool" where
  "spec_phone_format s = (spec_plus_format s \<or> spec_dashed_format s)"

section \<open>Data model (models.py) and the store\<close>

text \<open>
  A \<open>DateTimeField\<close> holds a point in time, here an integer.  A \<open>Decimal\<close> is
  a finite decimal number, here a rational; its non-finite values are outside the
  model, and so is the precision of 28 digits at which Python adds.  The
  many-to-many relation of an order is the set of primary keys of its products, as
  \<open>order.products.set\<close> leaves it.
\<close>

type_synonym datetime = int

record Customer =
  customer_pk :: nat
  customer_name :: string
  customer_email :: string
  customer_phone :: "string option"
  customer_created_at :: datetime

record Product =
  product_pk :: nat
  product_name :: string
  product_price :: rat
  product_stock :: int
  product_created_at :: datetime

record Order =
  order_pk :: nat
  order_customer :: nat
  order_products :: "nat set"
  order_date :: datetime
  total_amount :: rat
  order_created_at :: datetime

record Store =
  Customer_objects :: "Customer list"
  Product_objects :: "Product list"
  Order_objects :: "Order list"

text \<open>The statements the mutations send to the store.\<close>

datatype statement =
    InsertCustomer Customer
  | InsertProduct Product
  | InsertOrder Order
  | SetOrderProducts nat "nat set"
  | SaveOrder Order

datatype exn = ValueError | TypeError | DoesNotExist | InvalidOperation | DatabaseError string

text \<open>
  What the source takes from outside the repository is a parameter of the model:
  \<^item> \<open>fault st stmt\<close>: whether the store, in state \<open>st\<close>, raises on the statement
    (a constraint of the schema, a value out of range for its column such as a
    decimal of more digits than \<open>max_digits\<close>, a lost connection), with
    \<open>str(exc)\<close> of the exception raised;
  \<^item> \<open>pk_of\<close>: the coercion of a GraphQL \<open>ID\<close> to a primary key by the lookup
    \<open>get(pk=...)\<close>; \<open>None\<close> stands for the \<open>ValueError\<close> of a malformed reference;
  \<^item> \<open>fromisoformat\<close>: \<open>datetime.fromisoformat\<close>, \<open>None\<close> when it raises;
  \<^item> \<open>now\<close>: the clock, read once per request.
\<close>

record env =
  fault :: "Store \<Rightarrow> statement \<Rightarrow> string option"
  pk_of :: "string \<Rightarrow> nat option"
  fromisoformat :: "string \<Rightarrow> datetime option"
  now :: datetime

text \<open>Primary keys are assigned by the store, each larger than all in the table.\<close>

definition next_pk :: "nat list \<Rightarrow> nat" where
  "next_pk pks = Suc (fold max pks 0)"

text \<open>
  \<open>price = DecimalField(max_digits=10, decimal_places=2)\<close> and \<open>total_amount =
  DecimalField(max_digits=12, decimal_places=2)\<close>: the column keeps two decimal
  places.  Django quantizes the value it writes and the value it reads to the
  places of the field, with the rounding of a decimal context, half to even; the
  instance that was written keeps the value it was given.
\<close>

definition round_half_even :: "rat \<Rightarrow> int" where
  "round_half_even x =
     (let n = \<lfloor>x\<rfloor>; r = x - of_int n
      in if r < 1 / 2 then n else if 1 / 2 < r then n + 1 else if even n then n else n + 1)"

definition quantize :: "nat \<Rightarrow> rat \<Rightarrow> rat" where
  "quantize places x = of_int (round_half_even (x * 10 ^ places)) / 10 ^ places"

text \<open>
  \<open>Customer.objects.filter(email=email).exists()\<close>; the store compares the
  strings exactly.
\<close>

definition Customer_email_exists :: "Store \<Rightarrow> string \<Rightarrow> bool" where
  "Customer_email_exists st email =
     list_ex (\<lambda>c. customer_email c = email) (Customer_objects st)"

text \<open>
  \<open>Customer.objects.get(pk=...)\<close> and \<open>Product.objects.get(pk=...)\<close>; the
  price of the product read is the value of the column at its two places.
\<close>

definition Customer_objects_get :: "env \<Rightarrow> Store \<Rightarrow> string \<Rightarrow> exn + Customer" where
  "Customer_objects_get e st ref =
     (case pk_of e ref of
        None \<Rightarrow> Inl ValueError
      | Some k \<Rightarrow>
          (case find (\<lambda>c. customer_pk c = k) (Customer_objects st) of
             None \<Rightarrow> Inl DoesNotExist
           | Some c \<Rightarrow> Inr c))"

definition Product_objects_get :: "env \<Rightarrow> Store \<Rightarrow> string \<Rightarrow> exn + Product" where
  "Product_objects_get e st ref =
     (case pk_of e ref of
        None \<Rightarrow> Inl ValueError
      | Some k \<Rightarrow>
          (case find (\<lambda>p. product_pk p = k) (Product_objects st) of
             None \<Rightarrow> Inl DoesNotExist
           | Some row \<Rightarrow> Inr (row\<lparr>product_price := quantize 2 (product_price row)\<rparr>)))"

text \<open>
  \<open>Customer.objects.create(name=..., email=..., phone=...)\<close>: the new row and the
  store holding it, or the text of the exception the store raised, the store
  then being as before.
\<close>

definition Customer_objects_create ::
  "env \<Rightarrow> Store \<Rightarrow> string \<Rightarrow> string \<Rightarrow> string option \<Rightarrow> string + (Store \<times> Customer)" where
  "Customer_objects_create e st name email phone =
     (let c = \<lparr>customer_pk = next_pk (map customer_pk (Customer_objects st)),
                customer_name = name, customer_email = email, customer_phone = phone,
                customer_created_at = now e\<rparr>
      in case fault e st (InsertCustomer c) of
           Some msg \<Rightarrow> Inl msg
         | None \<Rightarrow> Inr (st\<lparr>Customer_objects := Customer_objects st @ [c]\<rparr>, c))"

text \<open>
  \<open>Product.objects.create(name=..., price=..., stock=...)\<close>: the row written has
  the price at two places; the instance returned has the price it was given.
\<close>

definition Product_objects_create ::
  "env \<Rightarrow> Store \<Rightarrow> string \<Rightarrow> rat \<Rightarrow> int \<Rightarrow> string + (Store \<times> Product)" where
  "Product_objects_create e st name price stock =
     (let product = \<lparr>product_pk = next_pk (map product_pk (Product_objects st)),
                      product_name = name, product_price = price, product_stock = stock,
                      product_created_at = now e\<rparr>;
          row = product\<lparr>product_price := quantize 2 price\<rparr>
      in case fault e st (InsertProduct row) of
           Some msg \<Rightarrow> Inl msg
         | None \<Rightarrow> Inr (st\<lparr>Product_objects := Product_objects st @ [row]\<rparr>, product))"

text \<open>
  Writing back an order that is in the table: its row has the total at two
  places.
\<close>

definition order_row :: "Order \<Rightarrow> Order" where
  "order_row ord = ord\<lparr>total_amount := quantize 2 (total_amount ord)\<rparr>"

definition save_order :: "Store \<Rightarrow> Order \<Rightarrow> Store" where
  "save_order st ord =
     st\<lparr>Order_objects :=
          map (\<lambda>x. if order_pk x = order_pk ord then order_row ord else x) (Order_objects st)\<rparr>"

text \<open>
  \<open>Order.calculate_total\<close> of models.py: the sum of the prices of
  \<open>self.products.all()\<close>, the products the order is related to, each read from
  its row.
\<close>

definition calculate_total :: "Store \<Rightarrow> Order \<Rightarrow> rat" where
  "calculate_total st ord =
     sum_list (map (\<lambda>row. quantize 2 (product_price row))
       (filter (\<lambda>row. product_pk row \<in> order_products ord) (Product_objects st)))"

section \<open>Payloads and inputs of the mutations\<close>

text \<open>
  Every payload has the created record or nothing (the source's field
  \<open>customer\<close>, \<open>product\<close> or \<open>order\<close>, here \<open>node\<close>), \<open>success\<close> and \<open>message\<close>;
  the payloads of old-schema3.py and of \<open>CreateOrder\<close> also have \<open>errors\<close>.
\<close>

record 'a Payload =
  node :: "'a option"
  success :: bool
  message :: string

record 'a PayloadE = "'a Payload" +
  errors :: "string list"


text \<open>
  \<open>CreateCustomerInput\<close> and \<open>OneCustomerInput\<close>: \<open>name\<close> and \<open>email\<close> are
  required, hence never null; \<open>phone\<close> may be absent.
\<close>

record CreateCustomerInput =
  in_name :: string
  in_email :: string
  in_phone :: "string option"

text \<open>
  \<open>CreateProductInput\<close>: \<open>price\<close> is a GraphQL Float, kept abstract as \<open>'f\<close>; its
  conversion \<open>Decimal(str(input.price))\<close> is a parameter of the mutation, \<open>None\<close>
  when it raises.
\<close>

record 'f CreateProductInput =
  pin_name :: string
  pin_price :: 'f
  pin_stock :: "int option"

text \<open>
  \<open>CreateOrderInput\<close>: the references are GraphQL IDs, that is strings; a null
  element of the list of product references is outside the model.
\<close>

record CreateOrderInput =
  oin_customer_id :: string
  oin_product_ids :: "string list"
  oin_order_date :: "string option"

section \<open>Mutations of old-schema3.py\<close>

text \<open>
  \<open>(input.phone or "").strip() if getattr(input, "phone", None) else None\<close>, and
  \<open>input.phone.strip() if input.phone else None\<close> of old-schema.py.
\<close>

definition stripped_phone :: "string option \<Rightarrow> string option" where
  "stripped_phone p = (if truthy p then map_option strip p else None)"

text \<open>\<open>CreateCustomer.mutate\<close>: all field errors are collected before returning.\<close>

definition CreateCustomer3_mutate ::
  "env \<Rightarrow> Store \<Rightarrow> CreateCustomerInput \<Rightarrow> Store \<times> Customer PayloadE" where
  "CreateCustomer3_mutate e st inp =
     (let name = strip (in_name inp);
          email = lower (strip (in_email inp));
          phone = stripped_phone (in_phone inp);
          errs = (if name = [] then [''Name is required.''] else []) @
                 (if email = [] then [''Email is required.''] else []) @
                 (if truthy phone \<and> \<not> is_valid_phone phone
                  then [''Phone format invalid. Expected +1234567890 or 123-456-7890.'']
                  else [])
      in if errs \<noteq> [] then
           (st, \<lparr>node = None, success = False, message = ''Validation failed.'',
                 errors = errs\<rparr>)
         else if Customer_email_exists st email then
           (st, \<lparr>node = None, success = False, message = ''Email already exists.'',
                 errors = [''Email already exists.'']\<rparr>)
         else
           (case Customer_objects_create e st name email phone of
              Inr (st', customer) \<Rightarrow>
                (st', \<lparr>node = Some customer, success = True,
                       message = ''Customer created.'', errors = []\<rparr>)
            | Inl msg \<Rightarrow>
                (st, \<lparr>node = None, success = False,
                      message = ''Error creating customer.'', errors = [msg]\<rparr>)))"




text \<open>
  \<open>CreateProduct.mutate\<close>; \<open>dec\<close> is \<open>Decimal(str(input.price))\<close>, \<open>None\<close> for
  \<open>InvalidOperation\<close>, \<open>TypeError\<close> or \<open>ValueError\<close>.
\<close>

definition CreateProduct3_mutate ::
  "('f \<Rightarrow> rat option) \<Rightarrow> env \<Rightarrow> Store \<Rightarrow> 'f CreateProductInput \<Rightarrow> Store \<times> Product PayloadE" where
  "CreateProduct3_mutate dec e st inp =
     (let name = strip (pin_name inp);
          stock = (case pin_stock inp of None \<Rightarrow> 0 | Some s \<Rightarrow> s)
      in case dec (pin_price inp) of
           None \<Rightarrow>
             (st, \<lparr>node = None, success = False, message = ''Invalid price.'',
                   errors = [''Price must be a number.'']\<rparr>)
         | Some price \<Rightarrow>
             if price \<le> 0 then
               (st, \<lparr>node = None, success = False, message = ''Price must be positive.'',
                     errors = [''Price must be positive.'']\<rparr>)
             else if stock < 0 then
               (st, \<lparr>node = None, success = False, message = ''Stock cannot be negative.'',
                     errors = [''Stock cannot be negative.'']\<rparr>)
             else
               (case Product_objects_create e st name price stock of
                  Inr (st', product) \<Rightarrow>
                    (st', \<lparr>node = Some product, success = True,
                           message = ''Product created.'', errors = []\<rparr>)
                | Inl msg \<Rightarrow>
                    (st, \<lparr>node = None, success = False,
                          message = ''Error creating product.'', errors = [msg]\<rparr>)))"

text \<open>
  \<open>CreateOrder.mutate\<close>, first the loop that resolves the product references:
  the products found and the references that raised, both in input order.
\<close>

fun resolve_products3 ::
  "env \<Rightarrow> Store \<Rightarrow> string list \<Rightarrow> Product list \<times> string list \<Rightarrow> Product list \<times> string list" where
  "resolve_products3 e st [] acc = acc"
| "resolve_products3 e st (pid # pids) (products, invalid_ids) =
     (case Product_objects_get e st pid of
        Inr p \<Rightarrow> resolve_products3 e st pids (products @ [p], invalid_ids)
      | Inl _ \<Rightarrow> resolve_products3 e st pids (products, invalid_ids @ [pid]))"

text \<open>\<open>total = Decimal("0.00"); for p in products: total += p.price\<close>.\<close>

definition order_total :: "Product list \<Rightarrow> rat" where
  "order_total products = fold (\<lambda>p total. total + product_price p) products 0"

text \<open>
  The block under \<open>transaction.atomic()\<close>: insert the order, set its products,
  compute and save the total.  \<open>Inl\<close> is an exception leaving the block, which
  rolls back every write of the block.
\<close>

definition CreateOrder3_atomic ::
  "env \<Rightarrow> Store \<Rightarrow> CreateOrderInput \<Rightarrow> Customer \<Rightarrow> Product list \<Rightarrow> string + (Store \<times> Order)" where
  "CreateOrder3_atomic e st inp customer products =
     (let parsed = (case oin_order_date inp of
                      None \<Rightarrow> None
                    | Some s \<Rightarrow> if s = [] then None else fromisoformat e s);
          order0 = \<lparr>order_pk = next_pk (map order_pk (Order_objects st)),
                     order_customer = customer_pk customer, order_products = {},
                     order_date = (case parsed of None \<Rightarrow> now e | Some d \<Rightarrow> d),
                     total_amount = 0, order_created_at = now e\<rparr>
      in case fault e st (InsertOrder order0) of
           Some msg \<Rightarrow> Inl msg
         | None \<Rightarrow>
             (let st1 = st\<lparr>Order_objects := Order_objects st @ [order0]\<rparr>;
                  pks = set (map product_pk products)
              in case fault e st1 (SetOrderProducts (order_pk order0) pks) of
                   Some msg \<Rightarrow> Inl msg
                 | None \<Rightarrow>
                     (let order1 = order0\<lparr>order_products := pks\<rparr>;
                          st2 = save_order st1 order1;
                          order2 = order1\<lparr>total_amount := order_total products\<rparr>
                      in case fault e st2 (SaveOrder (order_row order2)) of
                           Some msg \<Rightarrow> Inl msg
                         | None \<Rightarrow> Inr (save_order st2 order2, order2))))"

definition CreateOrder3_mutate ::
  "env \<Rightarrow> Store \<Rightarrow> CreateOrderInput \<Rightarrow> Store \<times> Order PayloadE" where
  "CreateOrder3_mutate e st inp =
     (case Customer_objects_get e st (oin_customer_id inp) of
        Inl _ \<Rightarrow>
          (st, \<lparr>node = None, success = False, message = ''Invalid customer ID.'',
                errors = [''Invalid customer ID.'']\<rparr>)
      | Inr customer \<Rightarrow>
          (let product_ids = oin_product_ids inp
           in if product_ids = [] then
                (st, \<lparr>node = None, success = False,
                      message = ''At least one product must be provided.'',
                      errors = [''At least one product must be provided.'']\<rparr>)
              else
                (case resolve_products3 e st product_ids ([], []) of
                   (products, invalid_ids) \<Rightarrow>
                     if invalid_ids \<noteq> [] then
                       (st, \<lparr>node = None, success = False,
                             message = ''Invalid product IDs provided.'',
                             errors = [''Invalid product IDs: '' @ join '', '' invalid_ids]\<rparr>)
                     else
                       (case CreateOrder3_atomic e st inp customer products of
                          Inl msg \<Rightarrow>
                            (st, \<lparr>node = None, success = False,
                                  message = ''Error creating order.'', errors = [msg]\<rparr>)
                        | Inr (st', ord) \<Rightarrow>
                            (st', \<lparr>node = Some ord, success = True,
                                   message = ''Order created.'', errors = []\<rparr>)))))"

section \<open>Mutations of old-schema.py\<close>

text \<open>
  \<open>CreateCustomer.mutate\<close>: the first failing check returns; there is no check
  of \<open>name\<close> or \<open>email\<close>, and no handler around the insertion, so that an
  exception of the store leaves the mutation (\<open>Inl\<close>).
\<close>

definition CreateCustomer_mutate ::
  "env \<Rightarrow> Store \<Rightarrow> CreateCustomerInput \<Rightarrow> exn + (Store \<times> Customer Payload)" where
  "CreateCustomer_mutate e st inp =
     (let name = strip (in_name inp);
          email = lower (strip (in_email inp));
          phone = stripped_phone (in_phone inp)
      in if \<not> validate_phone phone then
           Inr (st, \<lparr>node = None, success = False,
                     message = ''Invalid phone format. Use +1234567890 or 123-456-7890.''\<rparr>)
         else if Customer_email_exists st email then
           Inr (st, \<lparr>node = None, success = False, message = ''Email already exists.''\<rparr>)
         else
           (case Customer_objects_create e st name email phone of
              Inl msg \<Rightarrow> Inl (DatabaseError msg)
            | Inr (st', customer) \<Rightarrow>
                Inr (st', \<lparr>node = Some customer, success = True,
                           message = ''Customer created.''\<rparr>)))"




text \<open>
  \<open>CreateProduct.mutate\<close>: the conversion and the insertion have no handler.
\<close>

definition CreateProduct_mutate ::
  "('f \<Rightarrow> rat option) \<Rightarrow> env \<Rightarrow> Store \<Rightarrow> 'f CreateProductInput \<Rightarrow>
   exn + (Store \<times> Product Payload)" where
  "CreateProduct_mutate dec e st inp =
     (let name = strip (pin_name inp)
      in case dec (pin_price inp) of
           None \<Rightarrow> Inl InvalidOperation
         | Some price \<Rightarrow>
             (let stock = (case pin_stock inp of None \<Rightarrow> 0 | Some s \<Rightarrow> s)
              in if price \<le> 0 then
                   Inr (st, \<lparr>node = None, success = False,
                             message = ''Price must be positive.''\<rparr>)
                 else if stock < 0 then
                   Inr (st, \<lparr>node = None, success = False,
                             message = ''Stock cannot be negative.''\<rparr>)
                 else
                   (case Product_objects_create e st name price stock of
                      Inl msg \<Rightarrow> Inl (DatabaseError msg)
                    | Inr (st', product) \<Rightarrow>
                        Inr (st', \<lparr>node = Some product, success = True,
                                   message = ''Product created.''\<rparr>))))"

text \<open>
  \<open>CreateOrder.mutate\<close>: one entry of \<open>errors\<close> for each reference that raised.
\<close>

fun resolve_products ::
  "env \<Rightarrow> Store \<Rightarrow> string list \<Rightarrow> Product list \<times> string list \<Rightarrow> Product list \<times> string list" where
  "resolve_products e st [] acc = acc"
| "resolve_products e st (pid # pids) (products, errs) =
     (case Product_objects_get e st pid of
        Inr p \<Rightarrow> resolve_products e st pids (products @ [p], errs)
      | Inl _ \<Rightarrow> resolve_products e st pids (products, errs @ [''Invalid product ID: '' @ pid]))"

text \<open>
  The block under \<open>transaction.atomic()\<close>: \<open>order_date\<close> is left to the default
  of the model, \<open>timezone.now\<close>.
\<close>

definition CreateOrder_atomic ::
  "env \<Rightarrow> Store \<Rightarrow> Customer \<Rightarrow> Product list \<Rightarrow> string + (Store \<times> Order)" where
  "CreateOrder_atomic e st customer products =
     (let order0 = \<lparr>order_pk = next_pk (map order_pk (Order_objects st)),
                     order_customer = customer_pk customer, order_products = {},
                     order_date = now e, total_amount = 0, order_created_at = now e\<rparr>
      in case fault e st (InsertOrder order0) of
           Some msg \<Rightarrow> Inl msg
         | None \<Rightarrow>
             (let st1 = st\<lparr>Order_objects := Order_objects st @ [order0]\<rparr>;
                  pks = set (map product_pk products)
              in case fault e st1 (SetOrderProducts (order_pk order0) pks) of
                   Some msg \<Rightarrow> Inl msg
                 | None \<Rightarrow>
                     (let order1 = order0\<lparr>order_products := pks\<rparr>;
                          st2 = save_order st1 order1;
                          order2 = order1\<lparr>total_amount := order_total products\<rparr>
                      in case fault e st2 (SaveOrder (order_row order2)) of
                           Some msg \<Rightarrow> Inl msg
                         | None \<Rightarrow> Inr (save_order st2 order2, order2))))"

definition CreateOrder_mutate ::
  "env \<Rightarrow> Store \<Rightarrow> CreateOrderInput \<Rightarrow> Store \<times> Order PayloadE" where
  "CreateOrder_mutate e st inp =
     (case Customer_objects_get e st (oin_customer_id inp) of
        Inl _ \<Rightarrow>
          (st, \<lparr>node = None, success = False, message = ''Invalid customer ID.'',
                errors = [''Invalid customer ID.'']\<rparr>)
      | Inr customer \<Rightarrow>
          (let product_ids = oin_product_ids inp
           in if product_ids = [] then
                (st, \<lparr>node = None, success = False,
                      message = ''At least one product must be selected.'',
                      errors = [''At least one product is required.'']\<rparr>)
              else
                (case resolve_products e st product_ids ([], []) of
                   (products, errs) \<Rightarrow>
                     if errs \<noteq> [] then
                       (st, \<lparr>node = None, success = False,
                             message = ''One or more product IDs are invalid.'',
                             errors = errs\<rparr>)
                     else
                       (case CreateOrder_atomic e st customer products of
                          Inl msg \<Rightarrow>
                            (st, \<lparr>node = None, success = False,
                                  message = ''Error creating order: '' @ msg,
                                  errors = [msg]\<rparr>)
                        | Inr (st', ord) \<Rightarrow>
                            (st', \<lparr>node = Some ord, success = True,
                                   message = ''Order created.'', errors = []\<rparr>)))))"

section \<open>The low-stock filter (filters.py)\<close>

text \<open>
  The value handed to \<open>filter_low_stock\<close>: \<open>None\<close>, a string, an integer or a
  finite \<open>Decimal\<close> (what the \<open>NumberFilter\<close> passes on).  \<open>int(value)\<close> raises
  \<open>TypeError\<close> on \<open>None\<close>, parses a string as a decimal integer literal (optional
  white space around, an optional sign, digits with single underscores between
  them, at most 4300 digits by default) or raises \<open>ValueError\<close>, and truncates a
  \<open>Decimal\<close> towards zero.
\<close>

datatype pyvalue = PyNone | PyStr string | PyInt int | PyDecimal rat

definition int_isspace :: "char \<Rightarrow> bool" where
  "int_isspace c = (let n = (of_char c :: nat) in
     (9 \<le> n \<and> n \<le> 13) \<or> n = 32 \<or> n = 133 \<or> n = 160)"

fun grouped :: "string \<Rightarrow> bool" where
  "grouped [] = True"
| "grouped (c # cs) =
     (if isdigit c then grouped cs
      else c = CHR ''_'' \<and> (case cs of [] \<Rightarrow> False | d # ds \<Rightarrow> isdigit d \<and> grouped ds))"

definition int_literal :: "string \<Rightarrow> bool" where
  "int_literal t = (case t of [] \<Rightarrow> False | c # cs \<Rightarrow> isdigit c \<and> grouped cs)"

definition digits_value :: "string \<Rightarrow> nat" where
  "digits_value t = fold (\<lambda>c v. 10 * v + (of_char c - 48)) (filter isdigit t) 0"

definition int_of_str :: "string \<Rightarrow> int option" where
  "int_of_str s =
     (let t = rev (dropWhile int_isspace (rev (dropWhile int_isspace s)));
          neg = (t \<noteq> [] \<and> hd t = CHR ''-'');
          body = (if t \<noteq> [] \<and> (hd t = CHR ''-'' \<or> hd t = CHR ''+'') then tl t else t)
      in if int_literal body \<and> length (filter isdigit body) \<le> 4300
         then Some (if neg then - int (digits_value body) else int (digits_value body))
         else None)"

fun py_int :: "pyvalue \<Rightarrow> exn + int" where
  "py_int PyNone = Inl TypeError"
| "py_int (PyStr s) = (case int_of_str s of None \<Rightarrow> Inl ValueError | Some n \<Rightarrow> Inr n)"
| "py_int (PyInt n) = Inr n"
| "py_int (PyDecimal q) = Inr (if 0 \<le> q then \<lfloor>q\<rfloor> else \<lceil>q\<rceil>)"

text \<open>
  \<open>ProductFilter.filter_low_stock(self, queryset, name, value)\<close>; the queryset is
  the list of its rows.
\<close>

definition filter_low_stock :: "Product list \<Rightarrow> string \<Rightarrow> pyvalue \<Rightarrow> Product list" where
  "filter_low_stock queryset name v =
     (case py_int v of
        Inl _ \<Rightarrow> queryset
      | Inr threshold \<Rightarrow> filter (\<lambda>p. product_stock p < threshold) queryset)"

section \<open>The checks of one record, in the order of the source\<close>




text \<open>
  The product references of an order that resolve, as rows, and those that do
  not, both in input order.
\<close>

definition found_products :: "env \<Rightarrow> Store \<Rightarrow> string list \<Rightarrow> Product list" where
  "found_products e st pids =
     concat (map (\<lambda>pid. case Product_objects_get e st pid of Inr p \<Rightarrow> [p] | Inl _ \<Rightarrow> []) pids)"

definition unresolved :: "env \<Rightarrow> Store \<Rightarrow> string list \<Rightarrow> string list" where
  "unresolved e st pids = filter (\<lambda>pid. isl (Product_objects_get e st pid)) pids"

section \<open>Example data\<close>

text \<open>
  A store that raises on no statement, references written as decimal digits, a
  timestamp parser that accepts nothing, and the clock at 0.
\<close>

definition example_env :: env where
  "example_env = \<lparr>fault = (\<lambda>st stmt. None),
                   pk_of = (\<lambda>s. if int_literal s then Some (digits_value s) else None),
                   fromisoformat = (\<lambda>s. None), now = 0\<rparr>"

definition empty_store :: Store where
  "empty_store = \<lparr>Customer_objects = [], Product_objects = [], Order_objects = []\<rparr>"

definition three_violations :: CreateCustomerInput where
  "three_violations = \<lparr>in_name = ''  '', in_email = [], in_phone = Some ''12345''\<rparr>"


definition customer_A :: "datetime \<Rightarrow> Customer" where
  "customer_A t = \<lparr>customer_pk = 1, customer_name = ''A'', customer_email = ''a@x.com'',
                    customer_phone = None, customer_created_at = t\<rparr>"

text \<open>A store with customer A and two products priced 10.00 and 5.25.\<close>

definition product_1 :: Product where
  "product_1 = \<lparr>product_pk = 1, product_name = ''pen'', product_price = 10,
                 product_stock = 2, product_created_at = 0\<rparr>"

definition product_2 :: Product where
  "product_2 = \<lparr>product_pk = 2, product_name = ''ink'', product_price = 21 / 4,
                 product_stock = 7, product_created_at = 0\<rparr>"

definition shop :: Store where
  "shop = \<lparr>Customer_objects = [customer_A 0], Product_objects = [product_1, product_2],
            Order_objects = []\<rparr>"

text \<open>Inputs of single customer creation against \<open>shop\<close>, which holds a@x.com.\<close>

definition duplicate_without_name :: CreateCustomerInput where
  "duplicate_without_name = \<lparr>in_name = [], in_email = '' A@X.com '', in_phone = None\<rparr>"

definition duplicate_bad_phone :: CreateCustomerInput where
  "duplicate_bad_phone =
     \<lparr>in_name = ''B'', in_email = '' A@X.com '', in_phone = Some ''12345''\<rparr>"

definition duplicate_valid :: CreateCustomerInput where
  "duplicate_valid = \<lparr>in_name = ''B'', in_email = '' A@X.com '', in_phone = None\<rparr>"

text \<open>A product input whose price is already a decimal, converted by \<open>Some\<close>.\<close>

definition product_input :: "rat \<Rightarrow> int \<Rightarrow> rat CreateProductInput" where
  "product_input price stock =
     \<lparr>pin_name = ''pen'', pin_price = price, pin_stock = Some stock\<rparr>"

text \<open>
  Orders against \<open>shop\<close>: both products; an unknown customer with one unknown
  product; the known customer with two unknown products among the known ones;
  both products with a timestamp that does not parse.
\<close>

definition two_products :: CreateOrderInput where
  "two_products = \<lparr>oin_customer_id = ''1'', oin_product_ids = [''1'', ''2''],
                    oin_order_date = None\<rparr>"

definition unknown_customer_order :: CreateOrderInput where
  "unknown_customer_order = \<lparr>oin_customer_id = ''9'', oin_product_ids = [''1'', ''7''],
                              oin_order_date = None\<rparr>"

definition mixed_order :: CreateOrderInput where
  "mixed_order = \<lparr>oin_customer_id = ''1'', oin_product_ids = [''1'', ''7'', ''2'', ''8''],
                   oin_order_date = None\<rparr>"

definition bad_date_order :: CreateOrderInput where
  "bad_date_order = \<lparr>oin_customer_id = ''1'', oin_product_ids = [''1'', ''2''],
                      oin_order_date = Some ''yesterday''\<rparr>"

text \<open>An order against \<open>shop\<close> that names product 1 twice.\<close>

definition repeated_product :: CreateOrderInput where
  "repeated_product = \<lparr>oin_customer_id = ''1'', oin_product_ids = [''1'', ''1''],
                        oin_order_date = None\<rparr>"

text \<open>The first product of an empty store, created at time 0 with stock 3.\<close>

definition new_pen :: "rat \<Rightarrow> Product" where
  "new_pen price = \<lparr>product_pk = 1, product_name = ''pen'', product_price = price,
                     product_stock = 3, product_created_at = 0\<rparr>"

text \<open>The order that \<open>repeated_product\<close> leaves in \<open>shop\<close>.\<close>

definition order_of_two_pens :: Order where
  "order_of_two_pens = \<lparr>order_pk = 1, order_customer = 1, order_products = {1},
                         order_date = 0, total_amount = 20, order_created_at = 0\<rparr>"

section \<open>The phone validator\<close>

lemma line_feed_not_digit: "\<not> isdigit line_feed"
  by code_simp

lemma line_feed_isspace: "isspace line_feed"
  by code_simp

text \<open>One step of the matcher on one state, for the atoms with a single outcome.\<close>

lemma takeWhile_length_iff:
  "n \<le> length (takeWhile P r) \<longleftrightarrow> n \<le> length r \<and> list_all P (take n r)"
proof (induction r arbitrary: n)
  case Nil
  then show ?case by simp
next
  case (Cons x r)
  then show ?case by (cases n) auto
qed

lemma digits_exact_step:
  "atom_step (Digits m m) (k, r) =
     (if m \<le> length r \<and> list_all isdigit (take m r) then [(k + m, drop m r)] else [])"
proof -
  let ?d = "length (takeWhile isdigit r)"
  have "rev [m ..< Suc (min m ?d)] = (if m \<le> ?d then [m] else [])"
    by (auto simp: min_def)
  then show ?thesis
    by (simp add: Let_def takeWhile_length_iff [symmetric])
qed

lemma lit_step:
  "atom_step (Lit c) (k, r) = (if r \<noteq> [] \<and> hd r = c then [(Suc k, tl r)] else [])"
  by (cases r) auto

text \<open>
  After \<open>\d{m,n}\<close> the atom \<open>$\<close> matches only when the whole run of digits has
  been taken: inside the run the next character is a digit.
\<close>

lemma dollar_after_digits:
  assumes "j \<le> length (takeWhile isdigit r)"
  shows "(drop j r = [] \<or> drop j r = [line_feed]) \<longleftrightarrow>
         j = length (takeWhile isdigit r) \<and>
         (dropWhile isdigit r = [] \<or> dropWhile isdigit r = [line_feed])"
proof -
  let ?tw = "takeWhile isdigit r" and ?dw = "dropWhile isdigit r"
  have r: "r = ?tw @ ?dw" by simp
  have d: "drop j r = drop j ?tw @ ?dw"
    using assms by (subst r) (simp del: takeWhile_dropWhile_id)
  show ?thesis
  proof (cases "j = length ?tw")
    case True
    then show ?thesis using d by simp
  next
    case False
    with assms have lt: "j < length ?tw" by simp
    then have ne: "drop j ?tw \<noteq> []" by simp
    have "hd (drop j ?tw) \<in> set ?tw"
      using lt by (simp add: hd_drop_conv_nth)
    then have dig: "isdigit (hd (drop j ?tw))"
      by (meson set_takeWhileD)
    have "drop j r \<noteq> []" using d ne by simp
    moreover have "drop j r \<noteq> [line_feed]"
    proof
      assume "drop j r = [line_feed]"
      then have "hd (drop j ?tw @ ?dw) = line_feed" using d by simp
      then have "hd (drop j ?tw) = line_feed" using ne by simp
      then show False using dig line_feed_not_digit by simp
    qed
    ultimately show ?thesis using False by simp
  qed
qed

lemma dollar_candidates:
  "concat (map (atom_step Dollar) (map (\<lambda>j. (k + j, drop j r)) js)) \<noteq> [] \<longleftrightarrow>
     (\<exists>j\<in>set js. drop j r = [] \<or> drop j r = [line_feed])"
  by (induction js) auto

lemma range_ex:
  "(\<exists>j\<in>set (rev [m ..< Suc (min n d)]). P j) \<longleftrightarrow> (\<exists>j. m \<le> j \<and> j \<le> n \<and> j \<le> d \<and> P j)"
  by (simp only: set_rev set_upt Bex_def atLeastLessThan_iff less_Suc_eq_le min.bounded_iff)
     blast

lemma digits_dollar:
  "run [Digits m n, Dollar] [(k, r)] \<noteq> [] \<longleftrightarrow>
     m \<le> length (takeWhile isdigit r) \<and> length (takeWhile isdigit r) \<le> n \<and>
     (dropWhile isdigit r = [] \<or> dropWhile isdigit r = [line_feed])"
    (is "?lhs \<longleftrightarrow> ?rhs")
proof -
  let ?d = "length (takeWhile isdigit r)"
  let ?end = "\<lambda>j. drop j r = [] \<or> drop j r = [line_feed]"
  have "run [Digits m n, Dollar] [(k, r)] =
        concat (map (atom_step Dollar)
          (map (\<lambda>j. (k + j, drop j r)) (rev [m ..< Suc (min n ?d)])))"
    by (simp only: run.simps atom_step.simps Let_def list.map concat.simps append_Nil2)
  then have "?lhs \<longleftrightarrow> (\<exists>j\<in>set (rev [m ..< Suc (min n ?d)]). ?end j)"
    by (simp only: dollar_candidates)
  then have cand: "?lhs \<longleftrightarrow> (\<exists>j. m \<le> j \<and> j \<le> n \<and> j \<le> ?d \<and> ?end j)"
    by (simp only: range_ex)
  show ?thesis
  proof
    assume ?lhs
    with cand obtain j where j: "m \<le> j" "j \<le> n" "j \<le> ?d" "?end j" by blast
    from dollar_after_digits [OF j(3)] j(4) have "j = ?d"
      and "dropWhile isdigit r = [] \<or> dropWhile isdigit r = [line_feed]" by simp_all
    with j show ?rhs by simp
  next
    assume r: ?rhs
    have "?end ?d" using dollar_after_digits [of ?d r] r by simp
    with r have "m \<le> ?d \<and> ?d \<le> n \<and> ?d \<le> ?d \<and> ?end ?d" by simp
    then show ?lhs unfolding cand by (rule exI)
  qed
qed

text \<open>The first pattern: the format, or the format and one line feed.\<close>

lemma re_match_plus:
  "re_match plus_pattern s \<longleftrightarrow>
     spec_plus_format s \<or> (\<exists>t. s = t @ [line_feed] \<and> spec_plus_format t)"
proof (cases s)
  case Nil
  then show ?thesis by (simp add: re_match_def plus_pattern_def spec_plus_format_def)
next
  case (Cons x r)
  let ?tw = "takeWhile isdigit r" and ?dw = "dropWhile isdigit r"
  have m: "re_match plus_pattern s \<longleftrightarrow>
     x = CHR ''+'' \<and> 7 \<le> length ?tw \<and> length ?tw \<le> 15 \<and> (?dw = [] \<or> ?dw = [line_feed])"
    using digits_dollar [of 7 15 "Suc 0" r]
    by (simp add: re_match_def plus_pattern_def Cons)
  have r: "r = ?tw @ ?dw" by simp
  have tw: "list_all isdigit ?tw"
    by (simp add: list_all_iff) (meson set_takeWhileD)
  show ?thesis
  proof
    assume a: "re_match plus_pattern s"
    with m have x: "x = CHR ''+''" and l: "7 \<le> length ?tw" "length ?tw \<le> 15"
      and dw: "?dw = [] \<or> ?dw = [line_feed]" by auto
    from dw show "spec_plus_format s \<or> (\<exists>t. s = t @ [line_feed] \<and> spec_plus_format t)"
    proof
      assume "?dw = []"
      then have "r = ?tw" using r by (metis append_Nil2)
      then have "spec_plus_format s"
        using x l tw by (simp add: spec_plus_format_def Cons)
      then show ?thesis ..
    next
      assume "?dw = [line_feed]"
      then have "s = (x # ?tw) @ [line_feed]" using r Cons by (metis append_Cons)
      moreover have "spec_plus_format (x # ?tw)"
        using x l tw by (simp add: spec_plus_format_def)
      ultimately show ?thesis by blast
    qed
  next
    assume "spec_plus_format s \<or> (\<exists>t. s = t @ [line_feed] \<and> spec_plus_format t)"
    then show "re_match plus_pattern s"
    proof
      assume "spec_plus_format s"
      then have x: "x = CHR ''+''" and l: "7 \<le> length r" "length r \<le> 15"
        and d: "list_all isdigit r"
        by (simp_all add: spec_plus_format_def Cons)
      from d have "?tw = r" by (simp add: list_all_iff)
      then have "length ?tw = length r" by (rule arg_cong)
      moreover from d have "?dw = []" by (simp add: list_all_iff)
      ultimately show ?thesis using m x l by simp
    next
      assume "\<exists>t. s = t @ [line_feed] \<and> spec_plus_format t"
      then obtain t where t: "s = t @ [line_feed]" "spec_plus_format t" by blast
      from t(2) obtain ds where ds: "t = CHR ''+'' # ds" "7 \<le> length ds" "length ds \<le> 15"
        "list_all isdigit ds"
        by (cases t) (auto simp: spec_plus_format_def)
      from t(1) ds(1) Cons have x: "x = CHR ''+''" and rr: "r = ds @ [line_feed]" by auto
      have "?tw = ds"
        using ds(4) line_feed_not_digit by (simp add: rr takeWhile_append2 list_all_iff)
      moreover have "?dw = [line_feed]"
        using ds(4) line_feed_not_digit by (simp add: rr dropWhile_append2 list_all_iff)
      ultimately show ?thesis using m x ds by simp
    qed
  qed
qed


text \<open>The second pattern, atom by atom.\<close>

lemma run_Nil: "run as [] = []"
  by (induction as) auto

lemma run_caret: "run (Caret # as) [(0, r)] = run as [(0, r)]"
  by simp

lemma run_digits_lit:
  "run (Digits m m # Lit c # as) [(k, r)] \<noteq> [] \<longleftrightarrow>
     (\<exists>a r'. r = a @ c # r' \<and> length a = m \<and> list_all isdigit a \<and>
             run as [(Suc (k + m), r')] \<noteq> [])"
    (is "?lhs \<longleftrightarrow> ?rhs")
proof -
  have step: "run (Digits m m # Lit c # as) [(k, r)] =
      (if m \<le> length r \<and> list_all isdigit (take m r) \<and> drop m r \<noteq> [] \<and> hd (drop m r) = c
       then run as [(Suc (k + m), tl (drop m r))] else [])"
    by (simp only: run.simps list.map concat.simps append_Nil2 digits_exact_step lit_step
        run_Nil split: if_split) simp
  show ?thesis
  proof
    assume l: ?lhs
    with step have c: "m \<le> length r" "list_all isdigit (take m r)" "drop m r \<noteq> []"
      "hd (drop m r) = c" and rest: "run as [(Suc (k + m), tl (drop m r))] \<noteq> []"
      by (auto split: if_splits)
    have "r = take m r @ drop m r" by simp
    also have "drop m r = c # tl (drop m r)" using c(3,4) by (cases "drop m r") auto
    finally have "r = take m r @ c # tl (drop m r)" .
    moreover have "length (take m r) = m" using c(1) by simp
    ultimately show ?rhs using c(2) rest by blast
  next
    assume ?rhs
    then obtain a r' where "r = a @ c # r'" "length a = m" "list_all isdigit a"
      "run as [(Suc (k + m), r')] \<noteq> []" by blast
    then show ?lhs unfolding step by simp
  qed
qed

lemma run_digits_dollar:
  "run [Digits m m, Dollar] [(k, r)] \<noteq> [] \<longleftrightarrow>
     (\<exists>a t. r = a @ t \<and> length a = m \<and> list_all isdigit a \<and> (t = [] \<or> t = [line_feed]))"
    (is "?lhs \<longleftrightarrow> ?rhs")
proof -
  have step: "?lhs \<longleftrightarrow> m \<le> length r \<and> list_all isdigit (take m r) \<and>
      (drop m r = [] \<or> drop m r = [line_feed])"
    by (simp only: run.simps list.map concat.simps append_Nil2 digits_exact_step
        split: if_split) auto
  show ?thesis
  proof
    assume ?lhs
    with step have c: "m \<le> length r" "list_all isdigit (take m r)"
      "drop m r = [] \<or> drop m r = [line_feed]" by auto
    have "r = take m r @ drop m r" by simp
    moreover have "length (take m r) = m" using c(1) by simp
    ultimately show ?rhs using c(2,3) by blast
  next
    assume ?rhs
    then obtain a t where "r = a @ t" "length a = m" "list_all isdigit a"
      "t = [] \<or> t = [line_feed]" by blast
    then show ?lhs unfolding step by auto
  qed
qed

lemma spec_dashed_decomp:
  "spec_dashed_format t \<longleftrightarrow>
     (\<exists>a b c. t = a @ CHR ''-'' # b @ CHR ''-'' # c \<and> length a = 3 \<and> length b = 3 \<and>
              length c = 4 \<and> list_all isdigit a \<and> list_all isdigit b \<and> list_all isdigit c)"
    (is "?lhs \<longleftrightarrow> ?rhs")
proof
  assume l: ?lhs
  then have len: "length t = 12" and h: "t ! 3 = CHR ''-''" "t ! 7 = CHR ''-''"
    and d: "list_all isdigit (take 3 t)" "list_all isdigit (take 3 (drop 4 t))"
      "list_all isdigit (drop 8 t)"
    by (simp_all add: spec_dashed_format_def)
  have "t = take 3 t @ t ! 3 # drop 4 t"
    using id_take_nth_drop [of 3 t] len by simp
  moreover have "drop 4 t = take 3 (drop 4 t) @ t ! 7 # drop 8 t"
    using id_take_nth_drop [of 3 "drop 4 t"] len by simp
  ultimately have "t = take 3 t @ CHR ''-'' # take 3 (drop 4 t) @ CHR ''-'' # drop 8 t"
    using h by simp
  moreover have "length (take 3 t) = 3" "length (take 3 (drop 4 t)) = 3" "length (drop 8 t) = 4"
    using len by simp_all
  ultimately show ?rhs using d by blast
next
  assume ?rhs
  then obtain a b c where t: "t = a @ CHR ''-'' # b @ CHR ''-'' # c"
    and l: "length a = 3" "length b = 3" "length c = 4"
    and d: "list_all isdigit a" "list_all isdigit b" "list_all isdigit c" by blast
  show ?lhs
    using l d by (simp add: spec_dashed_format_def t nth_append)
qed

lemma re_match_dashed:
  "re_match dashed_pattern s \<longleftrightarrow>
     spec_dashed_format s \<or> (\<exists>t. s = t @ [line_feed] \<and> spec_dashed_format t)"
    (is "?lhs \<longleftrightarrow> ?rhs")
proof -
  have m: "?lhs \<longleftrightarrow>
     (\<exists>a b c t. s = a @ CHR ''-'' # b @ CHR ''-'' # c @ t \<and> length a = 3 \<and> length b = 3 \<and>
        length c = 4 \<and> list_all isdigit a \<and> list_all isdigit b \<and> list_all isdigit c \<and>
        (t = [] \<or> t = [line_feed]))"
    unfolding re_match_def dashed_pattern_def run_caret run_digits_lit run_digits_dollar
    by blast
  show ?thesis
  proof
    assume ?lhs
    with m obtain a b c t where s: "s = a @ CHR ''-'' # b @ CHR ''-'' # c @ t"
      and p: "length a = 3" "length b = 3" "length c = 4"
        "list_all isdigit a" "list_all isdigit b" "list_all isdigit c"
      and t: "t = [] \<or> t = [line_feed]" by blast
    from p have f: "spec_dashed_format (a @ CHR ''-'' # b @ CHR ''-'' # c)"
      unfolding spec_dashed_decomp by blast
    from t show ?rhs
    proof
      assume "t = []"
      then show ?thesis using s f by simp
    next
      assume "t = [line_feed]"
      then have "s = (a @ CHR ''-'' # b @ CHR ''-'' # c) @ [line_feed]" using s by simp
      then show ?thesis using f by blast
    qed
  next
    assume ?rhs
    then show ?lhs
    proof
      assume "spec_dashed_format s"
      then obtain a b c where "s = a @ CHR ''-'' # b @ CHR ''-'' # c @ []"
        "length a = 3" "length b = 3" "length c = 4"
        "list_all isdigit a" "list_all isdigit b" "list_all isdigit c"
        unfolding spec_dashed_decomp by auto
      then show ?thesis unfolding m by blast
    next
      assume "\<exists>t. s = t @ [line_feed] \<and> spec_dashed_format t"
      then obtain a b c where "s = a @ CHR ''-'' # b @ CHR ''-'' # c @ [line_feed]"
        "length a = 3" "length b = 3" "length c = 4"
        "list_all isdigit a" "list_all isdigit b" "list_all isdigit c"
        unfolding spec_dashed_decomp by auto
      then show ?thesis unfolding m by blast
    qed
  qed
qed

text \<open>
  What the two validators accept: the empty string, the strings of the
  specified format, and those strings followed by one line feed.
\<close>

lemma is_valid_phone_iff:
  "is_valid_phone (Some s) \<longleftrightarrow>
     s = [] \<or> spec_phone_format s \<or> (\<exists>t. s = t @ [line_feed] \<and> spec_phone_format t)"
  by (auto simp: is_valid_phone_def PHONE_PATTERNS_def re_match_plus re_match_dashed
      spec_phone_format_def)

lemma validate_phone_iff:
  "validate_phone (Some s) \<longleftrightarrow>
     s = [] \<or> spec_phone_format s \<or> (\<exists>t. s = t @ [line_feed] \<and> spec_phone_format t)"
  by (auto simp: validate_phone_def PHONE_REGEXES_def re_match_plus re_match_dashed
      spec_phone_format_def)

text \<open>
  A trimmed string has no final line feed, so on what the mutations pass to the
  validators, acceptance is the specified format.
\<close>

lemma strip_last: "strip s \<noteq> [] \<Longrightarrow> \<not> isspace (last (strip s))"
proof -
  assume ne: "strip s \<noteq> []"
  let ?r = "dropWhile isspace (rev (dropWhile isspace s))"
  from ne have r: "?r \<noteq> []" by (simp add: strip_def)
  then have "\<not> isspace (hd ?r)" by (rule hd_dropWhile)
  moreover have "last (strip s) = hd ?r" using r by (simp add: strip_def last_rev)
  ultimately show ?thesis by simp
qed

lemma stripped_phone_format:
  "is_valid_phone (Some (strip s)) \<longleftrightarrow> strip s = [] \<or> spec_phone_format (strip s)"
  "validate_phone (Some (strip s)) \<longleftrightarrow> strip s = [] \<or> spec_phone_format (strip s)"
  using strip_last [of s] line_feed_isspace
  by (auto simp: is_valid_phone_iff validate_phone_iff)


lemma phone_examples:
  "\<not> is_valid_phone (Some ''12345'')" "\<not> is_valid_phone (Some ''abc'')"
  "\<not> is_valid_phone (Some ''+123'')" "is_valid_phone None" "is_valid_phone (Some [])"
  "is_valid_phone (Some ''+1234567890'')" "is_valid_phone (Some ''123-456-7890'')"
  by code_simp+

section \<open>Single customer creation\<close>

text \<open>
  Claim C7.  In old-schema3.py, an input that violates any of the three field
  rules (name empty once trimmed, email empty, phone given and invalid) is
  refused, the store is as before, and the error list has the entry of every
  rule violated, in the order name, email, phone.
\<close>

theorem C7_all_field_errors_listed:
  "strip (in_name inp) = [] \<or> lower (strip (in_email inp)) = [] \<or>
   (truthy (stripped_phone (in_phone inp)) \<and> \<not> is_valid_phone (stripped_phone (in_phone inp)))
   \<Longrightarrow>
   fst (CreateCustomer3_mutate e st inp) = st \<and>
   node (snd (CreateCustomer3_mutate e st inp)) = None \<and>
   \<not> success (snd (CreateCustomer3_mutate e st inp)) \<and>
   errors (snd (CreateCustomer3_mutate e st inp)) =
     (if strip (in_name inp) = [] then [''Name is required.''] else []) @
     (if lower (strip (in_email inp)) = [] then [''Email is required.''] else []) @
     (if truthy (stripped_phone (in_phone inp)) \<and> \<not> is_valid_phone (stripped_phone (in_phone inp))
      then [''Phone format invalid. Expected +1234567890 or 123-456-7890.''] else [])"
  by (auto simp: CreateCustomer3_mutate_def Let_def)

theorem C7_witness:
  "errors (snd (CreateCustomer3_mutate example_env empty_store three_violations)) =
   [''Name is required.'', ''Email is required.'',
    ''Phone format invalid. Expected +1234567890 or 123-456-7890.'']"
proof -
  have n: "strip (in_name three_violations) = []" by code_simp
  have m: "lower (strip (in_email three_violations)) = []" by code_simp
  have p: "truthy (stripped_phone (in_phone three_violations)) \<and>
           \<not> is_valid_phone (stripped_phone (in_phone three_violations))" by code_simp
  from n have "strip (in_name three_violations) = [] \<or>
      lower (strip (in_email three_violations)) = [] \<or>
      (truthy (stripped_phone (in_phone three_violations)) \<and>
       \<not> is_valid_phone (stripped_phone (in_phone three_violations)))" by simp
  from C7_all_field_errors_listed [OF this, of example_env empty_store] n m p
  show ?thesis by simp
qed

text \<open>
  Claim C3, as stated: every creation whose trimmed, lower-cased email is in the
  store returns a duplicate-email error.  It fails where a field check comes
  first: against a store holding a@x.com, old-schema3.py answers an input without
  name by the validation error alone, and old-schema.py answers an input with an
  invalid phone by the phone error.
\<close>

theorem C3_counterexample:
  "Customer_email_exists shop (lower (strip (in_email duplicate_without_name))) \<and>
   snd (CreateCustomer3_mutate example_env shop duplicate_without_name) =
     \<lparr>node = None, success = False, message = ''Validation failed.'',
      errors = [''Name is required.'']\<rparr> \<and>
   Customer_email_exists shop (lower (strip (in_email duplicate_bad_phone))) \<and>
   CreateCustomer_mutate example_env shop duplicate_bad_phone =
     Inr (shop, \<lparr>node = None, success = False,
                 message = ''Invalid phone format. Use +1234567890 or 123-456-7890.''\<rparr>)"
  by code_simp

text \<open>
  Claim C3, amended.  Every creation whose trimmed, lower-cased email is in the
  store fails, creates no record and leaves the store as it was; when the input
  passes the field checks that come first (old-schema3.py: name and email not
  empty, phone absent or valid; old-schema.py: phone absent or valid) the
  failure is the duplicate-email error.
\<close>

theorem C3_duplicate_email_refused:
  assumes "Customer_email_exists st (lower (strip (in_email inp)))"
  shows "fst (CreateCustomer3_mutate e st inp) = st \<and>
         \<not> success (snd (CreateCustomer3_mutate e st inp)) \<and>
         node (snd (CreateCustomer3_mutate e st inp)) = None \<and>
         (strip (in_name inp) \<noteq> [] \<and> lower (strip (in_email inp)) \<noteq> [] \<and>
          (truthy (stripped_phone (in_phone inp)) \<longrightarrow>
             is_valid_phone (stripped_phone (in_phone inp))) \<longrightarrow>
            snd (CreateCustomer3_mutate e st inp) =
              \<lparr>node = None, success = False, message = ''Email already exists.'',
               errors = [''Email already exists.'']\<rparr>) \<and>
         (\<exists>p. CreateCustomer_mutate e st inp = Inr (st, p) \<and> \<not> success p \<and> node p = None \<and>
              (validate_phone (stripped_phone (in_phone inp)) \<longrightarrow>
                 p = \<lparr>node = None, success = False, message = ''Email already exists.''\<rparr>))"
  using assms by (auto simp: CreateCustomer3_mutate_def CreateCustomer_mutate_def Let_def)

theorem C3_witness:
  "CreateCustomer3_mutate example_env shop duplicate_valid =
     (shop, \<lparr>node = None, success = False, message = ''Email already exists.'',
             errors = [''Email already exists.'']\<rparr>) \<and>
   CreateCustomer_mutate example_env shop duplicate_valid =
     Inr (shop, \<lparr>node = None, success = False, message = ''Email already exists.''\<rparr>)"
proof -
  have h: "Customer_email_exists shop (lower (strip (in_email duplicate_valid)))"
    by code_simp
  have v: "strip (in_name duplicate_valid) \<noteq> []"
    "lower (strip (in_email duplicate_valid)) \<noteq> []"
    "\<not> truthy (stripped_phone (in_phone duplicate_valid))"
    "validate_phone (stripped_phone (in_phone duplicate_valid))"
    by code_simp+
  from C3_duplicate_email_refused [OF h, of example_env] v show ?thesis
    by (cases "CreateCustomer3_mutate example_env shop duplicate_valid") auto
qed

section \<open>Bulk customer creation\<close>




















section \<open>Decimal columns\<close>

text \<open>The values a column of \<open>n\<close> places keeps as they are: the integers over \<open>10 ^ n\<close>.\<close>

lemma round_half_even_of_int: "round_half_even (of_int k) = k"
  by (simp add: round_half_even_def)

lemma quantize_of_int: "quantize n (of_int k / 10 ^ n) = of_int k / 10 ^ n"
  by (simp add: quantize_def round_half_even_of_int)

lemma quantize_idem: "quantize n (quantize n x) = quantize n x"
  unfolding quantize_def [of n x] by (rule quantize_of_int)

lemma quantize_fixed_iff: "quantize n x = x \<longleftrightarrow> (\<exists>k. x = of_int k / 10 ^ n)"
proof
  assume "quantize n x = x"
  then have "x = of_int (round_half_even (x * 10 ^ n)) / 10 ^ n"
    by (simp add: quantize_def)
  then show "\<exists>k. x = of_int k / 10 ^ n" ..
next
  assume "\<exists>k. x = of_int k / 10 ^ n"
  then show "quantize n x = x" using quantize_of_int by auto
qed

lemma quantize_examples:
  "quantize 2 (21 / 2) = 21 / 2"
  "quantize 2 (2101 / 200) = 21 / 2"
  "quantize 2 (2103 / 200) = 263 / 25"
  "quantize 2 (1 / 1000) = 0"
  by code_simp+

text \<open>Sums of such values are such values.\<close>

lemma quantize_zero: "quantize n 0 = 0"
  using quantize_of_int [of n 0] by simp

lemma quantize_add:
  assumes "quantize n x = x" and "quantize n y = y"
  shows "quantize n (x + y) = x + y"
proof -
  from assms obtain k l where "x = of_int k / 10 ^ n" "y = of_int l / 10 ^ n"
    unfolding quantize_fixed_iff by blast
  then have "x + y = of_int (k + l) / 10 ^ n"
    by (simp add: add_divide_distrib)
  then show ?thesis unfolding quantize_fixed_iff ..
qed

lemma quantize_sum_list:
  "\<forall>x\<in>set xs. quantize n x = x \<Longrightarrow> quantize n (sum_list xs) = sum_list xs"
  by (induction xs) (simp_all add: quantize_zero quantize_add)


section \<open>Product creation\<close>

text \<open>
  Claim C6, as stated: a valid input succeeds and the stored price equals the
  input price.  It fails where the price has more than two decimal places: for the
  price 10.505 and the stock 3 both variants succeed, the row of the store has the
  price 10.50, and the product returned has the price 10.505.
\<close>

theorem C6_counterexample:
  "CreateProduct3_mutate Some example_env empty_store (product_input (2101 / 200) 3) =
     (empty_store\<lparr>Product_objects := [new_pen (21 / 2)]\<rparr>,
      \<lparr>node = Some (new_pen (2101 / 200)), success = True, message = ''Product created.'',
       errors = []\<rparr>) \<and>
   CreateProduct_mutate Some example_env empty_store (product_input (2101 / 200) 3) =
     Inr (empty_store\<lparr>Product_objects := [new_pen (21 / 2)]\<rparr>,
          \<lparr>node = Some (new_pen (2101 / 200)), success = True,
           message = ''Product created.''\<rparr>) \<and>
   product_price (new_pen (21 / 2)) \<noteq> pin_price (product_input (2101 / 200) 3)"
  by code_simp

text \<open>
  Claim C6, amended.  A product whose price does not convert to a decimal is
  refused and nothing is stored: old-schema3.py returns the error payload, in
  old-schema.py the exception of the conversion leaves the mutation.  A product
  whose price is not positive or whose stock is negative is refused with the error
  of the first failed check, and the store is as before.  A product with a
  positive price and a stock that is absent or not negative, which the store
  accepts, is created: the row appended to the table has the converted input price
  rounded to two decimal places, half to even, hence the input price itself when
  that has at most two decimal places; the product returned has the converted
  input price.
\<close>

theorem C6_product_validation:
  "(dec (pin_price inp) = None \<longrightarrow>
      CreateProduct3_mutate dec e st inp =
        (st, \<lparr>node = None, success = False, message = ''Invalid price.'',
              errors = [''Price must be a number.'']\<rparr>) \<and>
      CreateProduct_mutate dec e st inp = Inl InvalidOperation) \<and>
   (\<forall>price. dec (pin_price inp) = Some price \<and> price \<le> 0 \<longrightarrow>
      CreateProduct3_mutate dec e st inp =
        (st, \<lparr>node = None, success = False, message = ''Price must be positive.'',
              errors = [''Price must be positive.'']\<rparr>) \<and>
      CreateProduct_mutate dec e st inp =
        Inr (st, \<lparr>node = None, success = False, message = ''Price must be positive.''\<rparr>)) \<and>
   (\<forall>price stock. dec (pin_price inp) = Some price \<and> 0 < price \<and>
        pin_stock inp = Some stock \<and> stock < 0 \<longrightarrow>
      CreateProduct3_mutate dec e st inp =
        (st, \<lparr>node = None, success = False, message = ''Stock cannot be negative.'',
              errors = [''Stock cannot be negative.'']\<rparr>) \<and>
      CreateProduct_mutate dec e st inp =
        Inr (st, \<lparr>node = None, success = False, message = ''Stock cannot be negative.''\<rparr>)) \<and>
   (\<forall>stock. pin_stock inp = Some stock \<and> stock < 0 \<longrightarrow>
      fst (CreateProduct3_mutate dec e st inp) = st \<and>
      \<not> success (snd (CreateProduct3_mutate dec e st inp)) \<and>
      node (snd (CreateProduct3_mutate dec e st inp)) = None) \<and>
   (\<forall>price stock product row.
      dec (pin_price inp) = Some price \<and> 0 < price \<and>
      stock = (case pin_stock inp of None \<Rightarrow> 0 | Some s \<Rightarrow> s) \<and> 0 \<le> stock \<and>
      product = \<lparr>product_pk = next_pk (map product_pk (Product_objects st)),
                 product_name = strip (pin_name inp), product_price = price,
                 product_stock = stock, product_created_at = now e\<rparr> \<and>
      row = product\<lparr>product_price := quantize 2 price\<rparr> \<and>
      fault e st (InsertProduct row) = None \<longrightarrow>
      CreateProduct3_mutate dec e st inp =
        (st\<lparr>Product_objects := Product_objects st @ [row]\<rparr>,
         \<lparr>node = Some product, success = True, message = ''Product created.'', errors = []\<rparr>) \<and>
      CreateProduct_mutate dec e st inp =
        Inr (st\<lparr>Product_objects := Product_objects st @ [row]\<rparr>,
             \<lparr>node = Some product, success = True, message = ''Product created.''\<rparr>) \<and>
      ((\<exists>k. price = of_int k / 10 ^ 2) \<longrightarrow> row = product))"
proof -
  have two: "quantize 2 price = price" if "\<exists>k. price = of_int k / 10 ^ 2" for price
    using that by (simp only: quantize_fixed_iff)
  show ?thesis
    by (auto simp: CreateProduct3_mutate_def CreateProduct_mutate_def Product_objects_create_def
        Let_def two split: option.splits)
qed

theorem C6_witness:
  "fst (CreateProduct3_mutate Some example_env empty_store (product_input 0 3)) = empty_store \<and>
   fst (CreateProduct3_mutate Some example_env empty_store (product_input (- 5) 3)) = empty_store \<and>
   CreateProduct3_mutate Some example_env empty_store (product_input (21 / 2) 3) =
     (empty_store\<lparr>Product_objects := [new_pen (21 / 2)]\<rparr>,
      \<lparr>node = Some (new_pen (21 / 2)), success = True, message = ''Product created.'',
       errors = []\<rparr>)"
proof -
  have z: "Some (pin_price (product_input 0 3)) = Some 0 \<and> (0::rat) \<le> 0"
    by (simp add: product_input_def)
  have n: "Some (pin_price (product_input (- 5) 3)) = Some (- 5) \<and> (- 5::rat) \<le> 0"
    by (simp add: product_input_def)
  let ?p = "\<lparr>product_pk = next_pk (map product_pk (Product_objects empty_store)),
             product_name = strip (pin_name (product_input (21 / 2) 3)),
             product_price = 21 / 2, product_stock = 3,
             product_created_at = now example_env\<rparr>"
  let ?row = "?p\<lparr>product_price := quantize 2 (21 / 2)\<rparr>"
  have v: "Some (pin_price (product_input (21 / 2) 3)) = Some (21 / 2) \<and> (0::rat) < 21 / 2 \<and>
           (3::int) = (case pin_stock (product_input (21 / 2) 3) of None \<Rightarrow> 0 | Some s \<Rightarrow> s) \<and>
           (0::int) \<le> 3 \<and> ?p = ?p \<and> ?row = ?row \<and>
           fault example_env empty_store (InsertProduct ?row) = None"
    by (simp add: product_input_def example_env_def)
  have k: "\<exists>k. (21 / 2 :: rat) = of_int k / 10 ^ 2"
    by (rule exI [of _ 1050]) simp
  have o: "Product_objects empty_store = []"
    by (simp add: empty_store_def)
  have p: "?p = new_pen (21 / 2)"
    by code_simp
  have a: "fst (CreateProduct3_mutate Some example_env empty_store (product_input 0 3)) =
           empty_store"
    using C6_product_validation [where dec = Some and inp = "product_input 0 3"
        and e = example_env and st = empty_store] z by simp
  have b: "fst (CreateProduct3_mutate Some example_env empty_store (product_input (- 5) 3)) =
           empty_store"
    using C6_product_validation [where dec = Some and inp = "product_input (- 5) 3"
        and e = example_env and st = empty_store] n by simp
  from C6_product_validation [where dec = Some and inp = "product_input (21 / 2) 3"
        and e = example_env and st = empty_store, THEN conjunct2, THEN conjunct2,
        THEN conjunct2, THEN conjunct2, rule_format, of "21 / 2" 3 ?p ?row] v k
  have m: "CreateProduct3_mutate Some example_env empty_store (product_input (21 / 2) 3) =
          (empty_store\<lparr>Product_objects := Product_objects empty_store @ [?row]\<rparr>,
           \<lparr>node = Some ?p, success = True, message = ''Product created.'', errors = []\<rparr>)"
    and r: "?row = ?p"
    by blast+
  have c: "CreateProduct3_mutate Some example_env empty_store (product_input (21 / 2) 3) =
          (empty_store\<lparr>Product_objects := [new_pen (21 / 2)]\<rparr>,
           \<lparr>node = Some (new_pen (21 / 2)), success = True, message = ''Product created.'',
            errors = []\<rparr>)"
    unfolding m unfolding r unfolding p unfolding o by simp
  from a b c show ?thesis by simp
qed

section \<open>Order creation\<close>

text \<open>A new primary key is none of the keys in the table.\<close>

lemma fold_max_ge: "x \<in> set pks \<Longrightarrow> x \<le> fold max pks (a::nat)"
proof (induction pks arbitrary: a)
  case Nil
  then show ?case by simp
next
  case (Cons y ys)
  have mono: "b \<le> fold max ys (b::nat)" for b
    by (induction ys arbitrary: b) (auto intro: order_trans [OF max.cobounded2])
  show ?case
  proof (cases "x = y")
    case True
    have "y \<le> max y a" by simp
    also have "\<dots> \<le> fold max ys (max y a)" by (rule mono)
    finally show ?thesis using True by simp
  next
    case False
    with Cons.prems have "x \<in> set ys" by simp
    then show ?thesis using Cons.IH by simp
  qed
qed

lemma next_pk_fresh: "next_pk pks \<notin> set pks"
proof
  assume "next_pk pks \<in> set pks"
  then have "next_pk pks \<le> fold max pks 0" by (rule fold_max_ge)
  then show False by (simp add: next_pk_def)
qed

text \<open>Saving the order just inserted rewrites the last row only.\<close>

lemma save_order_last:
  assumes "order_pk ord' = order_pk ord" and "order_pk ord \<notin> set (map order_pk os)"
  shows "save_order (st\<lparr>Order_objects := os @ [ord]\<rparr>) ord' =
         st\<lparr>Order_objects := os @ [order_row ord']\<rparr>"
proof -
  have "map (\<lambda>x. if order_pk x = order_pk ord' then order_row ord' else x) os = os"
    using assms by (induction os) auto
  then show ?thesis using assms by (simp add: save_order_def)
qed

text \<open>The row of an order whose total has two places is the order.\<close>

lemma order_row_id: "quantize 2 (total_amount ord) = total_amount ord \<Longrightarrow> order_row ord = ord"
  by (simp add: order_row_def)

lemma order_total_sum: "order_total ps = sum_list (map product_price ps)"
proof -
  have "fold (\<lambda>p total. total + product_price p) ps a = a + sum_list (map product_price ps)" for a
    by (induction ps arbitrary: a) (auto simp: algebra_simps)
  from this [of 0] show ?thesis by (simp add: order_total_def)
qed

text \<open>The two resolving loops: the rows found, and the references that raised.\<close>

lemma resolve_products3_eq:
  "resolve_products3 e st pids (ps, bad) =
     (ps @ found_products e st pids, bad @ unresolved e st pids)"
  by (induction pids arbitrary: ps bad)
     (auto simp: found_products_def unresolved_def split: sum.splits)

lemma resolve_products_eq:
  "resolve_products e st pids (ps, errs) =
     (ps @ found_products e st pids,
      errs @ map (\<lambda>pid. ''Invalid product ID: '' @ pid) (unresolved e st pids))"
  by (induction pids arbitrary: ps errs)
     (auto simp: found_products_def unresolved_def split: sum.splits)

text \<open>A product that was read has the key asked for and a price of two places.\<close>

lemma Product_objects_get_Inr:
  assumes "Product_objects_get e st pid = Inr p"
  shows "pk_of e pid = Some (product_pk p) \<and> quantize 2 (product_price p) = product_price p \<and>
   (\<exists>row. find (\<lambda>r. product_pk r = product_pk p) (Product_objects st) = Some row \<and>
      p = row\<lparr>product_price := quantize 2 (product_price row)\<rparr>)"
proof -
  from assms obtain k row where k: "pk_of e pid = Some k"
    and f: "find (\<lambda>r. product_pk r = k) (Product_objects st) = Some row"
    and p: "p = row\<lparr>product_price := quantize 2 (product_price row)\<rparr>"
    by (auto simp: Product_objects_get_def split: option.splits)
  from f have "product_pk row = k"
    by (auto simp: find_Some_iff)
  with k f p show ?thesis
    by (simp add: quantize_idem)
qed

lemma found_products_Inr:
  "p \<in> set (found_products e st pids) \<Longrightarrow> \<exists>pid. Product_objects_get e st pid = Inr p"
  by (auto simp: found_products_def split: sum.splits)

lemma found_products_two_places:
  "\<forall>p\<in>set (found_products e st pids). quantize 2 (product_price p) = product_price p"
  using found_products_Inr Product_objects_get_Inr by blast

lemma order_total_two_places:
  assumes "\<forall>p\<in>set ps. quantize 2 (product_price p) = product_price p"
  shows "quantize 2 (order_total ps) = order_total ps"
  unfolding order_total_sum using assms by (intro quantize_sum_list) simp

lemma found_products_pks:
  assumes "unresolved e st pids = []"
  shows "Some ` set (map product_pk (found_products e st pids)) = pk_of e ` set pids"
  using assms
proof (induction pids)
  case Nil
  then show ?case by (simp add: found_products_def)
next
  case (Cons pid pids)
  from Cons.prems obtain p where p: "Product_objects_get e st pid = Inr p"
    by (cases "Product_objects_get e st pid") (auto simp: unresolved_def)
  from Cons.prems have "unresolved e st pids = []"
    by (auto simp: unresolved_def split: if_splits)
  with Cons.IH have "Some ` set (map product_pk (found_products e st pids)) = pk_of e ` set pids"
    by simp
  moreover have "found_products e st (pid # pids) = p # found_products e st pids"
    using p by (simp add: found_products_def)
  ultimately show ?case using Product_objects_get_Inr [OF p] by simp
qed

lemma unresolved_ids: "unresolved e st pids \<noteq> [] \<Longrightarrow> pids \<noteq> []"
  by (auto simp: unresolved_def)

text \<open>
  What the block under \<open>transaction.atomic()\<close> leaves when it does not raise, for
  products that were read from the store.
\<close>

lemma atomic3_result:
  assumes "CreateOrder3_atomic e st inp c ps = Inr (st', ord)"
    and "\<forall>p\<in>set ps. quantize 2 (product_price p) = product_price p"
  shows "st' = st\<lparr>Order_objects := Order_objects st @ [ord]\<rparr> \<and>
         order_customer ord = customer_pk c \<and>
         order_products ord = set (map product_pk ps) \<and>
         total_amount ord = sum_list (map product_price ps)"
  using assms next_pk_fresh [of "map order_pk (Order_objects st)"]
    order_total_two_places [OF assms(2)]
  by (auto simp: CreateOrder3_atomic_def Let_def save_order_last order_total_sum
      order_row_def quantize_zero split: option.splits)

lemma atomic1_result:
  assumes "CreateOrder_atomic e st c ps = Inr (st', ord)"
    and "\<forall>p\<in>set ps. quantize 2 (product_price p) = product_price p"
  shows "st' = st\<lparr>Order_objects := Order_objects st @ [ord]\<rparr> \<and>
         order_customer ord = customer_pk c \<and>
         order_products ord = set (map product_pk ps) \<and>
         total_amount ord = sum_list (map product_price ps)"
  using assms next_pk_fresh [of "map order_pk (Order_objects st)"]
    order_total_two_places [OF assms(2)]
  by (auto simp: CreateOrder_atomic_def Let_def save_order_last order_total_sum
      order_row_def quantize_zero split: option.splits)

text \<open>The block does not raise when the store raises on no statement.\<close>

lemma atomic3_success:
  assumes "\<forall>st' stmt. fault e st' stmt = None"
    and "\<forall>p\<in>set ps. quantize 2 (product_price p) = product_price p"
  shows "\<exists>ord. CreateOrder3_atomic e st inp c ps =
                 Inr (st\<lparr>Order_objects := Order_objects st @ [ord]\<rparr>, ord) \<and>
               order_date ord =
                 (case oin_order_date inp of
                    None \<Rightarrow> now e
                  | Some s \<Rightarrow> if s = [] then now e
                             else (case fromisoformat e s of None \<Rightarrow> now e | Some d \<Rightarrow> d))"
  using assms next_pk_fresh [of "map order_pk (Order_objects st)"]
    order_total_two_places [OF assms(2)]
  by (auto simp: CreateOrder3_atomic_def Let_def save_order_last order_row_def quantize_zero
      split: option.splits)

lemma atomic1_success:
  assumes "\<forall>st' stmt. fault e st' stmt = None"
    and "\<forall>p\<in>set ps. quantize 2 (product_price p) = product_price p"
  shows "\<exists>ord. CreateOrder_atomic e st c ps =
                 Inr (st\<lparr>Order_objects := Order_objects st @ [ord]\<rparr>, ord) \<and>
               order_date ord = now e"
  using assms next_pk_fresh [of "map order_pk (Order_objects st)"]
    order_total_two_places [OF assms(2)]
  by (auto simp: CreateOrder_atomic_def Let_def save_order_last order_row_def quantize_zero)

text \<open>With the customer found and every reference resolved, the mutation is the block.\<close>

lemma mutate3_resolved:
  assumes "Customer_objects_get e st (oin_customer_id inp) = Inr c"
    and "oin_product_ids inp \<noteq> []"
    and "unresolved e st (oin_product_ids inp) = []"
  shows "CreateOrder3_mutate e st inp =
     (case CreateOrder3_atomic e st inp c (found_products e st (oin_product_ids inp)) of
        Inl msg \<Rightarrow> (st, \<lparr>node = None, success = False,
                         message = ''Error creating order.'', errors = [msg]\<rparr>)
      | Inr (st', ord) \<Rightarrow> (st', \<lparr>node = Some ord, success = True,
                                 message = ''Order created.'', errors = []\<rparr>))"
  using assms by (simp add: CreateOrder3_mutate_def Let_def resolve_products3_eq)

lemma mutate1_resolved:
  assumes "Customer_objects_get e st (oin_customer_id inp) = Inr c"
    and "oin_product_ids inp \<noteq> []"
    and "unresolved e st (oin_product_ids inp) = []"
  shows "CreateOrder_mutate e st inp =
     (case CreateOrder_atomic e st c (found_products e st (oin_product_ids inp)) of
        Inl msg \<Rightarrow> (st, \<lparr>node = None, success = False,
                         message = ''Error creating order: '' @ msg, errors = [msg]\<rparr>)
      | Inr (st', ord) \<Rightarrow> (st', \<lparr>node = Some ord, success = True,
                                 message = ''Order created.'', errors = []\<rparr>))"
  using assms by (simp add: CreateOrder_mutate_def Let_def resolve_products_eq)

text \<open>A successful mutation had its customer, a non-empty list and every product.\<close>

lemma mutate3_success:
  assumes "success (snd (CreateOrder3_mutate e st inp))"
  shows "\<exists>c st' ord. Customer_objects_get e st (oin_customer_id inp) = Inr c \<and>
           oin_product_ids inp \<noteq> [] \<and> unresolved e st (oin_product_ids inp) = [] \<and>
           CreateOrder3_atomic e st inp c (found_products e st (oin_product_ids inp)) =
             Inr (st', ord) \<and>
           CreateOrder3_mutate e st inp =
             (st', \<lparr>node = Some ord, success = True, message = ''Order created.'',
                    errors = []\<rparr>)"
  using assms
  by (auto simp: CreateOrder3_mutate_def Let_def resolve_products3_eq
      split: sum.splits if_splits prod.splits)

lemma mutate1_success:
  assumes "success (snd (CreateOrder_mutate e st inp))"
  shows "\<exists>c st' ord. Customer_objects_get e st (oin_customer_id inp) = Inr c \<and>
           oin_product_ids inp \<noteq> [] \<and> unresolved e st (oin_product_ids inp) = [] \<and>
           CreateOrder_atomic e st c (found_products e st (oin_product_ids inp)) =
             Inr (st', ord) \<and>
           CreateOrder_mutate e st inp =
             (st', \<lparr>node = Some ord, success = True, message = ''Order created.'',
                    errors = []\<rparr>)"
  using assms
  by (auto simp: CreateOrder_mutate_def Let_def resolve_products_eq
      split: sum.splits if_splits prod.splits)

lemma shop_facts:
  "Customer_objects_get example_env shop ''1'' = Inr (customer_A 0)"
  "found_products example_env shop [''1'', ''2''] = [product_1, product_2]"
  "unresolved example_env shop [''1'', ''2''] = []"
  by code_simp+

text \<open>
  In both variants, a create-order mutation that succeeds had an existing customer
  and a non-empty list of product references that all resolve; it appends one
  order to the table and returns it; the total of that order has one term for each
  reference, the price read for it, and its products are the referenced ones.
  With such an input the mutation does succeed when the store raises on no
  statement.
\<close>

lemma order_created:
  "(success (snd (CreateOrder3_mutate e st inp)) \<longrightarrow>
      (\<exists>c ord. Customer_objects_get e st (oin_customer_id inp) = Inr c \<and>
         oin_product_ids inp \<noteq> [] \<and> unresolved e st (oin_product_ids inp) = [] \<and>
         CreateOrder3_mutate e st inp =
           (st\<lparr>Order_objects := Order_objects st @ [ord]\<rparr>,
            \<lparr>node = Some ord, success = True, message = ''Order created.'', errors = []\<rparr>) \<and>
         order_customer ord = customer_pk c \<and>
         total_amount ord =
           sum_list (map product_price (found_products e st (oin_product_ids inp))) \<and>
         order_products ord =
           set (map product_pk (found_products e st (oin_product_ids inp))) \<and>
         Some ` order_products ord = pk_of e ` set (oin_product_ids inp))) \<and>
   (success (snd (CreateOrder_mutate e st inp)) \<longrightarrow>
      (\<exists>c ord. Customer_objects_get e st (oin_customer_id inp) = Inr c \<and>
         oin_product_ids inp \<noteq> [] \<and> unresolved e st (oin_product_ids inp) = [] \<and>
         CreateOrder_mutate e st inp =
           (st\<lparr>Order_objects := Order_objects st @ [ord]\<rparr>,
            \<lparr>node = Some ord, success = True, message = ''Order created.'', errors = []\<rparr>) \<and>
         order_customer ord = customer_pk c \<and>
         total_amount ord =
           sum_list (map product_price (found_products e st (oin_product_ids inp))) \<and>
         order_products ord =
           set (map product_pk (found_products e st (oin_product_ids inp))) \<and>
         Some ` order_products ord = pk_of e ` set (oin_product_ids inp))) \<and>
   ((\<forall>st' stmt. fault e st' stmt = None) \<and>
    (\<exists>c. Customer_objects_get e st (oin_customer_id inp) = Inr c) \<and>
    oin_product_ids inp \<noteq> [] \<and> unresolved e st (oin_product_ids inp) = [] \<longrightarrow>
      success (snd (CreateOrder3_mutate e st inp)) \<and>
      success (snd (CreateOrder_mutate e st inp)))"
    (is "(?A3 \<longrightarrow> ?B3) \<and> (?A1 \<longrightarrow> ?B1) \<and> (?H \<longrightarrow> ?S)")
proof -
  let ?ids = "oin_product_ids inp"
  let ?ps = "found_products e st ?ids"
  have v3: "\<exists>c ord. Customer_objects_get e st (oin_customer_id inp) = Inr c \<and>
         ?ids \<noteq> [] \<and> unresolved e st ?ids = [] \<and>
         CreateOrder3_mutate e st inp =
           (st\<lparr>Order_objects := Order_objects st @ [ord]\<rparr>,
            \<lparr>node = Some ord, success = True, message = ''Order created.'', errors = []\<rparr>) \<and>
         order_customer ord = customer_pk c \<and>
         total_amount ord = sum_list (map product_price ?ps) \<and>
         order_products ord = set (map product_pk ?ps) \<and>
         Some ` order_products ord = pk_of e ` set ?ids"
    if s: "success (snd (CreateOrder3_mutate e st inp))"
  proof -
    from mutate3_success [OF s] obtain c st' ord where
      c: "Customer_objects_get e st (oin_customer_id inp) = Inr c"
      and n: "?ids \<noteq> []" and u: "unresolved e st ?ids = []"
      and a: "CreateOrder3_atomic e st inp c ?ps = Inr (st', ord)"
      and m: "CreateOrder3_mutate e st inp =
             (st', \<lparr>node = Some ord, success = True, message = ''Order created.'',
                    errors = []\<rparr>)"
      by blast
    note r = atomic3_result [OF a found_products_two_places]
    have i: "Some ` order_products ord = pk_of e ` set ?ids"
      using r found_products_pks [OF u] by simp
    have m': "CreateOrder3_mutate e st inp =
           (st\<lparr>Order_objects := Order_objects st @ [ord]\<rparr>,
            \<lparr>node = Some ord, success = True, message = ''Order created.'', errors = []\<rparr>)"
      using m r by simp
    from r have "order_customer ord = customer_pk c"
      "total_amount ord = sum_list (map product_price ?ps)"
      "order_products ord = set (map product_pk ?ps)" by simp_all
    with c n u m' i show ?thesis by (intro exI [of _ c] exI [of _ ord] conjI)
  qed
  have v1: "\<exists>c ord. Customer_objects_get e st (oin_customer_id inp) = Inr c \<and>
         ?ids \<noteq> [] \<and> unresolved e st ?ids = [] \<and>
         CreateOrder_mutate e st inp =
           (st\<lparr>Order_objects := Order_objects st @ [ord]\<rparr>,
            \<lparr>node = Some ord, success = True, message = ''Order created.'', errors = []\<rparr>) \<and>
         order_customer ord = customer_pk c \<and>
         total_amount ord = sum_list (map product_price ?ps) \<and>
         order_products ord = set (map product_pk ?ps) \<and>
         Some ` order_products ord = pk_of e ` set ?ids"
    if s: "success (snd (CreateOrder_mutate e st inp))"
  proof -
    from mutate1_success [OF s] obtain c st' ord where
      c: "Customer_objects_get e st (oin_customer_id inp) = Inr c"
      and n: "?ids \<noteq> []" and u: "unresolved e st ?ids = []"
      and a: "CreateOrder_atomic e st c ?ps = Inr (st', ord)"
      and m: "CreateOrder_mutate e st inp =
             (st', \<lparr>node = Some ord, success = True, message = ''Order created.'',
                    errors = []\<rparr>)"
      by blast
    note r = atomic1_result [OF a found_products_two_places]
    have i: "Some ` order_products ord = pk_of e ` set ?ids"
      using r found_products_pks [OF u] by simp
    have m': "CreateOrder_mutate e st inp =
           (st\<lparr>Order_objects := Order_objects st @ [ord]\<rparr>,
            \<lparr>node = Some ord, success = True, message = ''Order created.'', errors = []\<rparr>)"
      using m r by simp
    from r have "order_customer ord = customer_pk c"
      "total_amount ord = sum_list (map product_price ?ps)"
      "order_products ord = set (map product_pk ?ps)" by simp_all
    with c n u m' i show ?thesis by (intro exI [of _ c] exI [of _ ord] conjI)
  qed
  have ok: "success (snd (CreateOrder3_mutate e st inp)) \<and>
            success (snd (CreateOrder_mutate e st inp))"
    if f: "\<forall>st' stmt. fault e st' stmt = None"
      and c: "Customer_objects_get e st (oin_customer_id inp) = Inr c"
      and n: "?ids \<noteq> []" and u: "unresolved e st ?ids = []" for c
  proof -
    from atomic3_success [where ps = ?ps and st = st and inp = inp and c = c,
        OF f found_products_two_places] obtain ord3 where
      "CreateOrder3_atomic e st inp c ?ps =
         Inr (st\<lparr>Order_objects := Order_objects st @ [ord3]\<rparr>, ord3)" by blast
    then have "success (snd (CreateOrder3_mutate e st inp))"
      using mutate3_resolved [OF c n u] by simp
    moreover from atomic1_success [where ps = ?ps and st = st and c = c,
        OF f found_products_two_places] obtain ord1 where
      "CreateOrder_atomic e st c ?ps =
         Inr (st\<lparr>Order_objects := Order_objects st @ [ord1]\<rparr>, ord1)" by blast
    then have "success (snd (CreateOrder_mutate e st inp))"
      using mutate1_resolved [OF c n u] by simp
    ultimately show ?thesis by simp
  qed
  have 3: "?A3 \<longrightarrow> ?B3" by (rule impI) (rule v3)
  have 1: "?A1 \<longrightarrow> ?B1" by (rule impI) (rule v1)
  have k: "?H \<longrightarrow> ?S"
  proof (rule impI)
    assume h: ?H
    then obtain c where "Customer_objects_get e st (oin_customer_id inp) = Inr c" by blast
    with h show ?S by (intro ok [of c]) simp_all
  qed
  from 3 1 k show ?thesis by (intro conjI)
qed

text \<open>The example of the specification: 10.00 and 5.25 give 15.25.\<close>

lemma two_products_example:
  "CreateOrder3_mutate example_env shop two_products =
     (shop\<lparr>Order_objects :=
               [\<lparr>order_pk = 1, order_customer = 1, order_products = {1, 2}, order_date = 0,
                 total_amount = 61 / 4, order_created_at = 0\<rparr>]\<rparr>,
      \<lparr>node = Some \<lparr>order_pk = 1, order_customer = 1, order_products = {1, 2},
                     order_date = 0, total_amount = 61 / 4, order_created_at = 0\<rparr>,
       success = True, message = ''Order created.'', errors = []\<rparr>)"
  by code_simp

text \<open>
  \<open>Order.calculate_total\<close> has one term for each product of the order.  It is the
  total of the mutation when no product is referenced twice, in a table whose
  primary keys are unique.
\<close>

lemma find_own_key:
  "distinct (map g xs) \<Longrightarrow> x \<in> set xs \<Longrightarrow> find (\<lambda>y. g y = g x) xs = Some x"
  by (induction xs) (auto simp: image_iff)

lemma order_total_calculate_total:
  assumes d: "distinct (map product_pk (found_products e st pids))"
    and k: "distinct (map product_pk (Product_objects st))"
    and o: "order_products ord = set (map product_pk (found_products e st pids))"
  shows "order_total (found_products e st pids) = calculate_total st ord"
proof -
  let ?rows = "Product_objects st" and ?ps = "found_products e st pids"
  let ?sel = "filter (\<lambda>row. product_pk row \<in> order_products ord) ?rows"
  define f where "f k = quantize 2 (product_price (the (find (\<lambda>r. product_pk r = k) ?rows)))"
    for k
  have p: "product_price p = f (product_pk p) \<and> product_pk p \<in> product_pk ` set ?rows"
    if "p \<in> set ?ps" for p
  proof -
    from found_products_Inr [OF that] obtain pid where "Product_objects_get e st pid = Inr p" ..
    from Product_objects_get_Inr [OF this] obtain row where
      r: "find (\<lambda>r. product_pk r = product_pk p) ?rows = Some row"
      and q: "p = row\<lparr>product_price := quantize 2 (product_price row)\<rparr>" by blast
    from r have "row \<in> set ?rows" and "product_pk row = product_pk p"
      by (auto simp: find_Some_iff)
    then have "product_pk p \<in> product_pk ` set ?rows"
      by (metis imageI)
    moreover from q have "product_price p = quantize 2 (product_price row)"
      by simp
    ultimately show ?thesis
      using r by (simp add: f_def)
  qed
  have r: "quantize 2 (product_price row) = f (product_pk row)" if "row \<in> set ?rows" for row
    using find_own_key [OF k that] by (simp add: f_def)
  have "map product_price ?ps = map f (map product_pk ?ps)"
    using p by simp
  then have "order_total ?ps = sum_list (map f (map product_pk ?ps))"
    by (simp only: order_total_sum)
  also have "\<dots> = sum f (set (map product_pk ?ps))"
    using d by (rule sum_list_distinct_conv_sum_set)
  finally have l: "order_total ?ps = sum f (set (map product_pk ?ps))" .
  have "map (\<lambda>row. quantize 2 (product_price row)) ?sel = map f (map product_pk ?sel)"
    using r by simp
  then have "calculate_total st ord = sum_list (map f (map product_pk ?sel))"
    by (simp only: calculate_total_def)
  also have "\<dots> = sum f (set (map product_pk ?sel))"
    by (rule sum_list_distinct_conv_sum_set) (rule distinct_map_filter [OF k])
  also have "set (map product_pk ?sel) = set (map product_pk ?ps)"
  proof -
    have "set (map product_pk ?sel) = product_pk ` set ?rows \<inter> order_products ord"
      by auto
    moreover have "order_products ord \<subseteq> product_pk ` set ?rows"
      using o p by auto
    ultimately show ?thesis
      using o by (simp add: Int_absorb1)
  qed
  finally show ?thesis
    using l by simp
qed

lemma distinct_references_total:
  assumes "distinct (map product_pk (found_products e st (oin_product_ids inp)))"
    and "distinct (map product_pk (Product_objects st))"
  shows "(success (snd (CreateOrder3_mutate e st inp)) \<longrightarrow>
           (\<exists>ord. node (snd (CreateOrder3_mutate e st inp)) = Some ord \<and>
                  total_amount ord = calculate_total st ord)) \<and>
         (success (snd (CreateOrder_mutate e st inp)) \<longrightarrow>
           (\<exists>ord. node (snd (CreateOrder_mutate e st inp)) = Some ord \<and>
                  total_amount ord = calculate_total st ord))"
proof -
  note t = order_total_calculate_total [OF assms, unfolded order_total_sum]
  have 3: "\<exists>ord. node (snd (CreateOrder3_mutate e st inp)) = Some ord \<and>
                 total_amount ord = calculate_total st ord"
    if "success (snd (CreateOrder3_mutate e st inp))"
  proof -
    from order_created [THEN conjunct1, rule_format, OF that] obtain ord where
      "node (snd (CreateOrder3_mutate e st inp)) = Some ord"
      "total_amount ord =
         sum_list (map product_price (found_products e st (oin_product_ids inp)))"
      "order_products ord = set (map product_pk (found_products e st (oin_product_ids inp)))"
      by auto
    then show ?thesis using t [of ord] by simp
  qed
  have 1: "\<exists>ord. node (snd (CreateOrder_mutate e st inp)) = Some ord \<and>
                 total_amount ord = calculate_total st ord"
    if "success (snd (CreateOrder_mutate e st inp))"
  proof -
    from order_created [THEN conjunct2, THEN conjunct1, rule_format, OF that] obtain ord where
      "node (snd (CreateOrder_mutate e st inp)) = Some ord"
      "total_amount ord =
         sum_list (map product_price (found_products e st (oin_product_ids inp)))"
      "order_products ord = set (map product_pk (found_products e st (oin_product_ids inp)))"
      by auto
    then show ?thesis using t [of ord] by simp
  qed
  from 3 1 show ?thesis by blast
qed

text \<open>
  Claim C1.  The total of the order created is the sum of the prices of the
  products the order is associated with.  The code breaks it when a product is
  referenced twice: against the store with the product 1 priced 10.00, the
  references 1, 1 create in both variants an order whose total is 20.00 and whose
  products are the product 1 alone, for which \<open>Order.calculate_total\<close> gives
  10.00.
\<close>

theorem C1_repeated_reference:
  "CreateOrder3_mutate example_env shop repeated_product =
     (shop\<lparr>Order_objects := [order_of_two_pens]\<rparr>,
      \<lparr>node = Some order_of_two_pens, success = True, message = ''Order created.'',
       errors = []\<rparr>) \<and>
   CreateOrder_mutate example_env shop repeated_product =
     (shop\<lparr>Order_objects := [order_of_two_pens]\<rparr>,
      \<lparr>node = Some order_of_two_pens, success = True, message = ''Order created.'',
       errors = []\<rparr>) \<and>
   total_amount order_of_two_pens = 20 \<and>
   order_products order_of_two_pens = {1} \<and>
   calculate_total (shop\<lparr>Order_objects := [order_of_two_pens]\<rparr>) order_of_two_pens = 10"
  by code_simp

text \<open>
  Claim C2, as stated: every create-order mutation with a product reference that
  does not resolve reports every such reference.  It fails where the customer
  check comes first: for an unknown customer both variants report the customer
  alone, and not the unknown product 7.
\<close>

theorem C2_counterexample:
  "unresolved example_env shop (oin_product_ids unknown_customer_order) = [''7''] \<and>
   errors (snd (CreateOrder3_mutate example_env shop unknown_customer_order)) =
     [''Invalid customer ID.''] \<and>
   errors (snd (CreateOrder_mutate example_env shop unknown_customer_order)) =
     [''Invalid customer ID.'']"
  by code_simp

text \<open>
  Claim C2, amended.  In both variants a create-order mutation with a product
  reference that does not resolve fails, returns no order and leaves the store
  as it was; when its customer reference resolves, its payload reports every
  reference that does not resolve, in input order: old-schema3.py in one message
  that joins them, old-schema.py in one message for each; when its customer
  reference does not resolve, its payload reports the invalid customer only.
\<close>

theorem C2_unresolved_products_reported:
  assumes "unresolved e st (oin_product_ids inp) \<noteq> []"
  shows "fst (CreateOrder3_mutate e st inp) = st \<and>
         \<not> success (snd (CreateOrder3_mutate e st inp)) \<and>
         node (snd (CreateOrder3_mutate e st inp)) = None \<and>
         fst (CreateOrder_mutate e st inp) = st \<and>
         \<not> success (snd (CreateOrder_mutate e st inp)) \<and>
         node (snd (CreateOrder_mutate e st inp)) = None \<and>
         (\<forall>c. Customer_objects_get e st (oin_customer_id inp) = Inr c \<longrightarrow>
            errors (snd (CreateOrder3_mutate e st inp)) =
              [''Invalid product IDs: '' @ join '', '' (unresolved e st (oin_product_ids inp))] \<and>
            errors (snd (CreateOrder_mutate e st inp)) =
              map (\<lambda>pid. ''Invalid product ID: '' @ pid) (unresolved e st (oin_product_ids inp))) \<and>
         (\<forall>x. Customer_objects_get e st (oin_customer_id inp) = Inl x \<longrightarrow>
            snd (CreateOrder3_mutate e st inp) =
              \<lparr>node = None, success = False, message = ''Invalid customer ID.'',
               errors = [''Invalid customer ID.'']\<rparr> \<and>
            snd (CreateOrder_mutate e st inp) =
              \<lparr>node = None, success = False, message = ''Invalid customer ID.'',
               errors = [''Invalid customer ID.'']\<rparr>)"
  using assms unresolved_ids [OF assms]
  by (cases "Customer_objects_get e st (oin_customer_id inp)")
     (simp_all add: CreateOrder3_mutate_def CreateOrder_mutate_def Let_def
        resolve_products3_eq resolve_products_eq)

theorem C2_witness:
  "CreateOrder3_mutate example_env shop mixed_order =
     (shop, \<lparr>node = None, success = False, message = ''Invalid product IDs provided.'',
             errors = [''Invalid product IDs: 7, 8'']\<rparr>) \<and>
   CreateOrder_mutate example_env shop mixed_order =
     (shop, \<lparr>node = None, success = False, message = ''One or more product IDs are invalid.'',
             errors = [''Invalid product ID: 7'', ''Invalid product ID: 8'']\<rparr>) \<and>
   CreateOrder3_mutate example_env shop unknown_customer_order =
     (shop, \<lparr>node = None, success = False, message = ''Invalid customer ID.'',
             errors = [''Invalid customer ID.'']\<rparr>) \<and>
   CreateOrder_mutate example_env shop unknown_customer_order =
     (shop, \<lparr>node = None, success = False, message = ''Invalid customer ID.'',
             errors = [''Invalid customer ID.'']\<rparr>)"
proof -
  have u': "unresolved example_env shop (oin_product_ids unknown_customer_order) \<noteq> []"
    by code_simp
  have c': "Customer_objects_get example_env shop (oin_customer_id unknown_customer_order) =
            Inl DoesNotExist"
    by code_simp
  from C2_unresolved_products_reported [OF u'] c'
  have k: "CreateOrder3_mutate example_env shop unknown_customer_order =
     (shop, \<lparr>node = None, success = False, message = ''Invalid customer ID.'',
             errors = [''Invalid customer ID.'']\<rparr>) \<and>
   CreateOrder_mutate example_env shop unknown_customer_order =
     (shop, \<lparr>node = None, success = False, message = ''Invalid customer ID.'',
             errors = [''Invalid customer ID.'']\<rparr>)"
    by (cases "CreateOrder3_mutate example_env shop unknown_customer_order";
        cases "CreateOrder_mutate example_env shop unknown_customer_order") auto
  have u: "unresolved example_env shop (oin_product_ids mixed_order) = [''7'', ''8'']"
    by code_simp
  have c: "Customer_objects_get example_env shop (oin_customer_id mixed_order) = Inr (customer_A 0)"
    by code_simp
  have m: "message (snd (CreateOrder3_mutate example_env shop mixed_order)) =
             ''Invalid product IDs provided.''"
          "message (snd (CreateOrder_mutate example_env shop mixed_order)) =
             ''One or more product IDs are invalid.''"
    by code_simp+
  have h: "unresolved example_env shop (oin_product_ids mixed_order) \<noteq> []"
    using u by simp
  from C2_unresolved_products_reported [OF h] c u m
  have "CreateOrder3_mutate example_env shop mixed_order =
     (shop, \<lparr>node = None, success = False, message = ''Invalid product IDs provided.'',
             errors = [''Invalid product IDs: 7, 8'']\<rparr>) \<and>
   CreateOrder_mutate example_env shop mixed_order =
     (shop, \<lparr>node = None, success = False, message = ''One or more product IDs are invalid.'',
             errors = [''Invalid product ID: 7'', ''Invalid product ID: 8'']\<rparr>)"
    by (cases "CreateOrder3_mutate example_env shop mixed_order";
        cases "CreateOrder_mutate example_env shop mixed_order") auto
  with k show ?thesis by (intro conjI) simp_all
qed

text \<open>
  Claim C9.  In old-schema3.py, a create-order mutation whose order timestamp is
  present but does not parse does exactly what it does without a timestamp, so
  no parse error reaches the payload; with an existing customer and a non-empty
  list of product references that all resolve, and a store that raises on no
  statement, it succeeds, with no error, and the date of the order is the
  current time.
\<close>

theorem C9_unparsable_order_date:
  assumes "oin_order_date inp = Some s" and "s \<noteq> []" and "fromisoformat e s = None"
  shows "CreateOrder3_mutate e st inp = CreateOrder3_mutate e st (inp\<lparr>oin_order_date := None\<rparr>) \<and>
         ((\<forall>st' stmt. fault e st' stmt = None) \<and>
          (\<exists>c. Customer_objects_get e st (oin_customer_id inp) = Inr c) \<and>
          oin_product_ids inp \<noteq> [] \<and> unresolved e st (oin_product_ids inp) = [] \<longrightarrow>
          (\<exists>ord. CreateOrder3_mutate e st inp =
              (st\<lparr>Order_objects := Order_objects st @ [ord]\<rparr>,
               \<lparr>node = Some ord, success = True, message = ''Order created.'', errors = []\<rparr>) \<and>
            order_date ord = now e))"
proof -
  have same: "CreateOrder3_atomic e st inp c ps =
              CreateOrder3_atomic e st (inp\<lparr>oin_order_date := None\<rparr>) c ps" for c ps
    using assms by (simp add: CreateOrder3_atomic_def)
  have eq: "CreateOrder3_mutate e st inp = CreateOrder3_mutate e st (inp\<lparr>oin_order_date := None\<rparr>)"
    by (auto simp: CreateOrder3_mutate_def same Let_def split: sum.splits prod.splits)
  have ok: "\<exists>ord. CreateOrder3_mutate e st inp =
              (st\<lparr>Order_objects := Order_objects st @ [ord]\<rparr>,
               \<lparr>node = Some ord, success = True, message = ''Order created.'', errors = []\<rparr>) \<and>
            order_date ord = now e"
    if f: "\<forall>st' stmt. fault e st' stmt = None"
      and c: "Customer_objects_get e st (oin_customer_id inp) = Inr c"
      and n: "oin_product_ids inp \<noteq> []" and u: "unresolved e st (oin_product_ids inp) = []"
    for c
  proof -
    from atomic3_success [where ps = "found_products e st (oin_product_ids inp)" and st = st
        and inp = inp and c = c, OF f found_products_two_places]
    obtain ord where
      "CreateOrder3_atomic e st inp c (found_products e st (oin_product_ids inp)) =
         Inr (st\<lparr>Order_objects := Order_objects st @ [ord]\<rparr>, ord)"
      "order_date ord = now e"
      using assms by auto
    then show ?thesis using mutate3_resolved [OF c n u] by auto
  qed
  from eq ok show ?thesis by blast
qed

theorem C9_witness:
  "\<exists>ord. CreateOrder3_mutate example_env shop bad_date_order =
           (shop\<lparr>Order_objects := [ord]\<rparr>,
            \<lparr>node = Some ord, success = True, message = ''Order created.'', errors = []\<rparr>) \<and>
         order_date ord = 0"
proof -
  have d: "oin_order_date bad_date_order = Some ''yesterday''" "''yesterday'' \<noteq> []"
    "fromisoformat example_env ''yesterday'' = None"
    by (simp_all add: bad_date_order_def example_env_def)
  have f: "\<forall>st' stmt. fault example_env st' stmt = None"
    by (simp add: example_env_def)
  have c: "\<exists>c. Customer_objects_get example_env shop (oin_customer_id bad_date_order) = Inr c"
    by (simp add: bad_date_order_def shop_facts)
  have n: "oin_product_ids bad_date_order \<noteq> []"
    "unresolved example_env shop (oin_product_ids bad_date_order) = []"
    by (simp_all add: bad_date_order_def shop_facts)
  have o: "Order_objects shop = []" "now example_env = 0"
    by (simp_all add: shop_def example_env_def)
  from C9_unparsable_order_date [OF d, of shop] f c n
  have "\<exists>ord. CreateOrder3_mutate example_env shop bad_date_order =
           (shop\<lparr>Order_objects := Order_objects shop @ [ord]\<rparr>,
            \<lparr>node = Some ord, success = True, message = ''Order created.'', errors = []\<rparr>) \<and>
         order_date ord = now example_env"
    by blast
  then show ?thesis using o by simp
qed

section \<open>The low-stock filter\<close>

text \<open>
  A value that \<open>int\<close> rejects leaves the queryset as it is; an integer keeps the
  rows whose stock is below it; so does a decimal that is negative or has no
  fractional part.
\<close>

lemma filter_low_stock_not_a_number:
  "py_int v = Inl x \<Longrightarrow> filter_low_stock queryset name v = queryset"
  by (simp add: filter_low_stock_def)

lemma filter_low_stock_number:
  "py_int v = Inr threshold \<Longrightarrow>
   filter_low_stock queryset name v = filter (\<lambda>p. product_stock p < threshold) queryset"
  by (simp add: filter_low_stock_def)

lemma filter_low_stock_abc: "filter_low_stock queryset name (PyStr ''abc'') = queryset"
proof -
  have "int_of_str ''abc'' = None" by code_simp
  then show ?thesis by (simp add: filter_low_stock_def)
qed

lemma filter_low_stock_None: "filter_low_stock queryset name PyNone = queryset"
  by (simp add: filter_low_stock_def)

lemma filter_low_stock_int:
  "filter_low_stock queryset name (PyInt t) = filter (\<lambda>p. product_stock p < t) queryset"
  by (simp add: filter_low_stock_def)

lemma filter_low_stock_decimal:
  assumes "q < 0 \<or> of_int \<lfloor>q\<rfloor> = q"
  shows "filter_low_stock queryset name (PyDecimal q) =
         filter (\<lambda>p. of_int (product_stock p) < q) queryset"
proof -
  have "(i < (if 0 \<le> q then \<lfloor>q\<rfloor> else \<lceil>q\<rceil>)) = (of_int i < q)" for i :: int
  proof (cases "0 \<le> q")
    case True
    with assms have "of_int \<lfloor>q\<rfloor> = q" by auto
    then show ?thesis using True by (metis of_int_less_iff)
  next
    case False
    then show ?thesis by (simp add: less_ceiling_iff)
  qed
  then show ?thesis by (simp add: filter_low_stock_def)
qed

text \<open>
  Claim C8.  A numeric threshold is to keep exactly the products whose stock is
  strictly less than the threshold.  With the threshold 2.5, as the number filter
  passes it, a product whose stock is 2 is dropped, because \<open>int(value)\<close>
  truncates 2.5 to 2; with the string \<open>2.5\<close> nothing is filtered, and a product
  whose stock is 7 is kept.
\<close>

theorem C8_fractional_threshold:
  "product_stock product_1 = 2 \<and> (of_int (product_stock product_1) :: rat) < 5 / 2 \<and>
   filter_low_stock [product_1] ''low_stock'' (PyDecimal (5 / 2)) = [] \<and>
   product_stock product_2 = 7 \<and>
   filter_low_stock [product_2] ''low_stock'' (PyStr ''2.5'') = [product_2]"
  by code_simp

lemma int_of_str_examples:
  "int_of_str ''5'' = Some 5" "int_of_str '' 12 '' = Some 12" "int_of_str ''-3'' = Some (- 3)"
  "int_of_str ''1_000'' = Some 1000" "int_of_str ''2.5'' = None" "int_of_str [] = None"
  by code_simp+

end
